theory Spec2Isabelle
  imports Main
begin

section \<open>The interpreter: values, stacks, registry\<close>

text \<open>
  \<^verbatim>\<open>ref.hpp\<close> talks to the interpreter through the Lua C API only. The API is an
  external library; the part of it that \<^verbatim>\<open>ref.hpp\<close> calls is modelled here after
  the Lua reference manual. One Lua universe is modelled: any number of threads
  (\<^verbatim>\<open>lua_State*\<close>), each with its own value stack, sharing the registry and the heap
  of tables. A \<^verbatim>\<open>lua_State*\<close> is an address; the null pointer is \<open>None\<close> of
  \<open>lua_ptr option\<close>.
\<close>

type_synonym lua_ptr = nat
type_synonym addr = nat

datatype lua_val =
    LNil
  | LBoolean bool
  | LNumber int
  | LString string
  | LTable addr
  | LFunction nat
  | LUserdata addr

text \<open>
  Every way an operation can end without returning to its caller: a failed \<^verbatim>\<open>assert\<close>,
  a dereferenced null \<^verbatim>\<open>lua_State*\<close>, the stack integrity guard firing, the thread
  affinity check firing, an error raised by the interpreter outside a protected call,
  a call of the C API outside its documented domain, and an exception that reaches
  the boundary of a \<^verbatim>\<open>noexcept\<close> function.
\<close>

datatype fault =
    AssertFailed
  | NullState
  | StackImbalance
  | WrongThread
  | LuaError
  | ApiMisuse
  | UncaughtException

text \<open>The exception a typed read throws when the value has the wrong runtime type.\<close>

datatype conv_error = ConversionError

record lua_world =
  stacks :: "lua_ptr \<Rightarrow> lua_val list"
  refs :: "int \<rightharpoonup> lua_val"
  free_refs :: "int list"
  last_ref :: int
  tables :: "addr \<Rightarrow> (lua_val \<rightharpoonup> lua_val)"
  metatables :: "lua_val \<rightharpoonup> addr"
  on_owner_thread :: bool

text \<open>
  \<open>stacks w L\<close> is the value stack of thread \<open>L\<close>, bottom first: index 1 is the head of
  the list, index -1 its last element. \<open>refs\<close> is the integer-keyed part of the table
  at \<^verbatim>\<open>LUA_REGISTRYINDEX\<close>; \<open>free_refs\<close> is the list of released reference keys
  that \<^verbatim>\<open>luaL_ref\<close> reuses and \<open>last_ref\<close> the largest key handed out so far.
  \<open>tables w a\<close> is the content of the table at address \<open>a\<close>; \<open>metatables\<close> gives the
  metatable of a table or userdata, and of each basic type.
\<close>

definition and_then :: "fault + 'a \<Rightarrow> ('a \<Rightarrow> fault + 'b) \<Rightarrow> fault + 'b" where
  "and_then m f = (case m of Inl e \<Rightarrow> Inl e | Inr x \<Rightarrow> f x)"

definition LUA_REFNIL :: int where
  "LUA_REFNIL = -1"

definition lua_gettop :: "lua_ptr \<Rightarrow> lua_world \<Rightarrow> int" where
  "lua_gettop L w = int (length (stacks w L))"

text \<open>The value at a stack index; \<open>None\<close> when the index is not valid.\<close>

definition lua_at :: "lua_ptr \<Rightarrow> int \<Rightarrow> lua_world \<Rightarrow> lua_val option" where
  "lua_at L n w =
     (let s = stacks w L;
          top = int (length s);
          i = (if n < 0 then top + n + 1 else n)
      in if 1 \<le> i \<and> i \<le> top then Some (s ! nat (i - 1)) else None)"

definition lua_push :: "lua_ptr \<Rightarrow> lua_val \<Rightarrow> lua_world \<Rightarrow> lua_world" where
  "lua_push L v w = w\<lparr>stacks := (stacks w)(L := stacks w L @ [v])\<rparr>"

definition lua_pushnil :: "lua_ptr \<Rightarrow> lua_world \<Rightarrow> lua_world" where
  "lua_pushnil L w = lua_push L LNil w"

text \<open>
  A \<^verbatim>\<open>const char*\<close> is modelled by the characters stored from the pointer onwards,
  \<open>None\<close> for the null pointer. The C string at the pointer is what precedes the first
  NUL; without a NUL in the storage the read runs past its end, which is undefined.
\<close>

type_synonym c_ptr = "string option"

definition c_str :: "c_ptr \<Rightarrow> string option" where
  "c_str s =
     (case s of
        None \<Rightarrow> None
      | Some bytes \<Rightarrow>
          (if CHR 0x00 \<in> set bytes then Some (takeWhile (\<lambda>c. c \<noteq> CHR 0x00) bytes)
           else None))"

text \<open>
  \<^verbatim>\<open>lua_pushstring(L, s)\<close>: pushes a copy of the C string at \<open>s\<close>; for a null \<open>s\<close>
  it pushes nil.
\<close>

definition lua_pushstring :: "lua_ptr \<Rightarrow> c_ptr \<Rightarrow> lua_world \<Rightarrow> fault + lua_world" where
  "lua_pushstring L s w =
     (case s of
        None \<Rightarrow> Inr (lua_push L LNil w)
      | Some bytes \<Rightarrow>
          (case c_str s of
             None \<Rightarrow> Inl ApiMisuse
           | Some k \<Rightarrow> Inr (lua_push L (LString k) w)))"

definition lua_pushvalue :: "lua_ptr \<Rightarrow> int \<Rightarrow> lua_world \<Rightarrow> fault + lua_world" where
  "lua_pushvalue L n w =
     (case lua_at L n w of None \<Rightarrow> Inl ApiMisuse | Some v \<Rightarrow> Inr (lua_push L v w))"

text \<open>\<^verbatim>\<open>lua_pop(L, n)\<close>: popping more than the stack holds is outside the API's domain.\<close>

definition lua_pop :: "lua_ptr \<Rightarrow> nat \<Rightarrow> lua_world \<Rightarrow> fault + lua_world" where
  "lua_pop L n w =
     (if n \<le> length (stacks w L)
      then Inr (w\<lparr>stacks := (stacks w)(L := take (length (stacks w L) - n) (stacks w L))\<rparr>)
      else Inl ApiMisuse)"

definition lua_isnil :: "lua_ptr \<Rightarrow> int \<Rightarrow> lua_world \<Rightarrow> bool" where
  "lua_isnil L n w = (lua_at L n w = Some LNil)"

definition lua_istable :: "lua_ptr \<Rightarrow> int \<Rightarrow> lua_world \<Rightarrow> bool" where
  "lua_istable L n w = (case lua_at L n w of Some (LTable a) \<Rightarrow> True | _ \<Rightarrow> False)"

text \<open>
  \<^verbatim>\<open>lua_rawgeti(L, LUA_REGISTRYINDEX, n)\<close>: pushes the registry entry at key \<open>n\<close>,
  nil when there is none.
\<close>

definition lua_rawgeti_registry :: "lua_ptr \<Rightarrow> int \<Rightarrow> lua_world \<Rightarrow> lua_world" where
  "lua_rawgeti_registry L n w =
     lua_push L (case refs w n of None \<Rightarrow> LNil | Some v \<Rightarrow> v) w"

text \<open>
  \<^verbatim>\<open>luaL_ref(L, LUA_REGISTRYINDEX)\<close>: pops the value on top of the stack; for nil it
  returns \<^verbatim>\<open>LUA_REFNIL\<close> and stores nothing, otherwise it stores the value under a
  key that is not in use (a released key if there is one, else the next new key) and
  returns the key.
\<close>

definition luaL_ref :: "lua_ptr \<Rightarrow> lua_world \<Rightarrow> fault + (int \<times> lua_world)" where
  "luaL_ref L w =
     (case lua_at L (-1) w of
        None \<Rightarrow> Inl ApiMisuse
      | Some v \<Rightarrow>
          and_then (lua_pop L 1 w) (\<lambda>w1.
            if v = LNil then Inr (LUA_REFNIL, w1)
            else (case free_refs w1 of
                    r # fs \<Rightarrow> Inr (r, w1\<lparr>refs := (refs w1)(r \<mapsto> v), free_refs := fs\<rparr>)
                  | [] \<Rightarrow> Inr (last_ref w1 + 1,
                             w1\<lparr>refs := (refs w1)(last_ref w1 + 1 \<mapsto> v),
                                last_ref := last_ref w1 + 1\<rparr>))))"

text \<open>
  \<^verbatim>\<open>luaL_unref(L, LUA_REGISTRYINDEX, ref)\<close>: for \<open>ref \<ge> 0\<close> the entry is removed and
  the key is freed to be used again; for negative \<open>ref\<close> nothing happens.
\<close>

definition luaL_unref :: "lua_ptr \<Rightarrow> int \<Rightarrow> lua_world \<Rightarrow> lua_world" where
  "luaL_unref L r w =
     (if r \<ge> 0 then w\<lparr>refs := (refs w)(r := None), free_refs := r # free_refs w\<rparr> else w)"

subsection \<open>Tables, metatables and the index events\<close>

definition rawget :: "lua_world \<Rightarrow> addr \<Rightarrow> lua_val \<Rightarrow> lua_val" where
  "rawget w a k = (case tables w a k of None \<Rightarrow> LNil | Some v \<Rightarrow> v)"

text \<open>A raw store; storing nil removes the key.\<close>

definition rawset :: "lua_world \<Rightarrow> addr \<Rightarrow> lua_val \<Rightarrow> lua_val \<Rightarrow> lua_world" where
  "rawset w a k v =
     w\<lparr>tables := (tables w)(a := (if v = LNil then (tables w a)(k := None)
                                   else (tables w a)(k \<mapsto> v)))\<rparr>"

text \<open>
  Tables and userdata carry their own metatable; the values of every other type share
  one metatable per type.
\<close>

fun mt_key :: "lua_val \<Rightarrow> lua_val" where
  "mt_key LNil = LNil"
| "mt_key (LBoolean b) = LBoolean False"
| "mt_key (LNumber n) = LNumber 0"
| "mt_key (LString s) = LString []"
| "mt_key (LTable a) = LTable a"
| "mt_key (LFunction f) = LFunction 0"
| "mt_key (LUserdata a) = LUserdata a"

definition metamethod :: "lua_world \<Rightarrow> lua_val \<Rightarrow> string \<Rightarrow> lua_val" where
  "metamethod w v event =
     (case metatables w (mt_key v) of None \<Rightarrow> LNil | Some m \<Rightarrow> rawget w m (LString event))"

text \<open>
  A function value is opaque. What calling it does is a parameter \<open>cf\<close> of the model:
  given the function and its arguments it returns the results and the new world, or
  \<open>None\<close> when the function raises an error. The callee runs in its own frame, so the
  stacks of the caller are as before when it returns.
\<close>

type_synonym callf = "nat \<Rightarrow> lua_val list \<Rightarrow> lua_world \<Rightarrow> (lua_val list \<times> lua_world) option"

definition lua_call :: "callf \<Rightarrow> nat \<Rightarrow> lua_val list \<Rightarrow> lua_world \<Rightarrow> fault + (lua_val list \<times> lua_world)" where
  "lua_call cf f args w =
     (case cf f args w of
        None \<Rightarrow> Inl LuaError
      | Some (rs, w') \<Rightarrow> Inr (rs, w'\<lparr>stacks := stacks w\<rparr>))"

definition first_result :: "lua_val list \<Rightarrow> lua_val" where
  "first_result rs = (case rs of [] \<Rightarrow> LNil | r # _ \<Rightarrow> r)"

definition MAXTAGLOOP :: nat where
  "MAXTAGLOOP = 2000"

text \<open>
  The index event \<open>t[k]\<close>: a raw read when \<open>t\<close> is a table that has the key;
  otherwise the \<^verbatim>\<open>__index\<close> metamethod decides: without one the result is nil for a
  table and an error for any other value, a function is called with \<open>t\<close> and \<open>k\<close>, and
  any other handler is indexed in turn. The chain is followed \<open>MAXTAGLOOP\<close> times at
  most, then it is an error.
\<close>

fun index_event :: "callf \<Rightarrow> nat \<Rightarrow> lua_val \<Rightarrow> lua_val \<Rightarrow> lua_world \<Rightarrow> fault + (lua_val \<times> lua_world)" where
  "index_event cf 0 t k w = Inl LuaError"
| "index_event cf (Suc n) t k w =
     (case t of
        LTable a \<Rightarrow>
          (if rawget w a k \<noteq> LNil then Inr (rawget w a k, w)
           else (case metamethod w t ''__index'' of
                   LNil \<Rightarrow> Inr (LNil, w)
                 | LFunction f \<Rightarrow>
                     and_then (lua_call cf f [t, k] w) (\<lambda>(rs, w'). Inr (first_result rs, w'))
                 | h \<Rightarrow> index_event cf n h k w))
      | _ \<Rightarrow>
          (case metamethod w t ''__index'' of
             LNil \<Rightarrow> Inl LuaError
           | LFunction f \<Rightarrow>
               and_then (lua_call cf f [t, k] w) (\<lambda>(rs, w'). Inr (first_result rs, w'))
           | h \<Rightarrow> index_event cf n h k w))"

text \<open>
  The newindex event \<open>t[k] = v\<close>: a raw store when \<open>t\<close> is a table that has the key;
  otherwise the \<^verbatim>\<open>__newindex\<close> metamethod decides: without one the store is raw for
  a table (an error for a nil key) and an error for any other value, a function is
  called with \<open>t\<close>, \<open>k\<close> and \<open>v\<close>, and any other handler is assigned to in turn.
\<close>

fun newindex_event :: "callf \<Rightarrow> nat \<Rightarrow> lua_val \<Rightarrow> lua_val \<Rightarrow> lua_val \<Rightarrow> lua_world \<Rightarrow> fault + lua_world" where
  "newindex_event cf 0 t k v w = Inl LuaError"
| "newindex_event cf (Suc n) t k v w =
     (case t of
        LTable a \<Rightarrow>
          (if rawget w a k \<noteq> LNil then Inr (rawset w a k v)
           else (case metamethod w t ''__newindex'' of
                   LNil \<Rightarrow> (if k = LNil then Inl LuaError else Inr (rawset w a k v))
                 | LFunction f \<Rightarrow>
                     and_then (lua_call cf f [t, k, v] w) (\<lambda>(rs, w'). Inr w')
                 | h \<Rightarrow> newindex_event cf n h k v w))
      | _ \<Rightarrow>
          (case metamethod w t ''__newindex'' of
             LNil \<Rightarrow> Inl LuaError
           | LFunction f \<Rightarrow>
               and_then (lua_call cf f [t, k, v] w) (\<lambda>(rs, w'). Inr w')
           | h \<Rightarrow> newindex_event cf n h k v w))"

text \<open>
  \<^verbatim>\<open>lua_getfield(L, n, s)\<close>: pushes \<open>t[k]\<close> for the value \<open>t\<close> at index \<open>n\<close> and
  the C string \<open>k\<close> at \<open>s\<close>.
\<close>

definition lua_getfield :: "callf \<Rightarrow> lua_ptr \<Rightarrow> int \<Rightarrow> c_ptr \<Rightarrow> lua_world \<Rightarrow> fault + lua_world" where
  "lua_getfield cf L n s w =
     (case (c_str s, lua_at L n w) of
        (Some k, Some t) \<Rightarrow>
          and_then (index_event cf MAXTAGLOOP t (LString k) w) (\<lambda>(v, w1). Inr (lua_push L v w1))
      | _ \<Rightarrow> Inl ApiMisuse)"

text \<open>
  \<^verbatim>\<open>lua_settable(L, n)\<close>: does \<open>t[k] = v\<close> for the value \<open>t\<close> at index \<open>n\<close>, \<open>v\<close> on
  top of the stack and \<open>k\<close> just below; pops both.
\<close>

definition lua_settable :: "callf \<Rightarrow> lua_ptr \<Rightarrow> int \<Rightarrow> lua_world \<Rightarrow> fault + lua_world" where
  "lua_settable cf L n w =
     (case (lua_at L n w, lua_at L (-2) w, lua_at L (-1) w) of
        (Some t, Some k, Some v) \<Rightarrow>
          and_then (newindex_event cf MAXTAGLOOP t k v w) (\<lambda>w1. lua_pop L 2 w1)
      | _ \<Rightarrow> Inl ApiMisuse)"

text \<open>
  \<^verbatim>\<open>lua_rawset(L, n)\<close>: as \<^verbatim>\<open>lua_settable\<close>, with a raw store; the value at index
  \<open>n\<close> must be a table.
\<close>

definition lua_rawset :: "lua_ptr \<Rightarrow> int \<Rightarrow> lua_world \<Rightarrow> fault + lua_world" where
  "lua_rawset L n w =
     (case (lua_at L n w, lua_at L (-2) w, lua_at L (-1) w) of
        (Some (LTable a), Some k, Some v) \<Rightarrow>
          (if k = LNil then Inl LuaError else lua_pop L 2 (rawset w a k v))
      | _ \<Rightarrow> Inl ApiMisuse)"

text \<open>
  \<^verbatim>\<open>lua_getmetatable(L, n)\<close>: when the value at index \<open>n\<close> has a metatable, pushes it
  and returns 1; otherwise returns 0 and pushes nothing.
\<close>

definition lua_getmetatable :: "lua_ptr \<Rightarrow> int \<Rightarrow> lua_world \<Rightarrow> fault + (bool \<times> lua_world)" where
  "lua_getmetatable L n w =
     (case lua_at L n w of
        None \<Rightarrow> Inl ApiMisuse
      | Some obj \<Rightarrow>
          (case metatables w (mt_key obj) of
             None \<Rightarrow> Inr (False, w)
           | Some m \<Rightarrow> Inr (True, lua_push L (LTable m) w)))"

text \<open>
  \<^verbatim>\<open>lua_setmetatable(L, n)\<close>: pops a table or nil from the stack and makes it the
  metatable of the value at index \<open>n\<close>; nil means no metatable.
\<close>

definition lua_setmetatable :: "lua_ptr \<Rightarrow> int \<Rightarrow> lua_world \<Rightarrow> fault + lua_world" where
  "lua_setmetatable L n w =
     (case (lua_at L n w, lua_at L (-1) w) of
        (Some obj, Some LNil) \<Rightarrow>
          lua_pop L 1 (w\<lparr>metatables := (metatables w)(mt_key obj := None)\<rparr>)
      | (Some obj, Some (LTable m)) \<Rightarrow>
          lua_pop L 1 (w\<lparr>metatables := (metatables w)(mt_key obj \<mapsto> m)\<rparr>)
      | _ \<Rightarrow> Inl ApiMisuse)"

section \<open>Collaborators declared outside \<^verbatim>\<open>ref.hpp\<close>\<close>

text \<open>
  Modelled from the spec: \<^verbatim>\<open>clg::checkThread\<close> (the thread affinity check, section
  4.2), which \<^verbatim>\<open>ref.hpp\<close> calls and does not define. It takes no argument: it passes
  when the calling thread is the one that may touch the interpreter and is fatal
  otherwise.
\<close>

definition checkThread :: "lua_world \<Rightarrow> fault + lua_world" where
  "checkThread w = (if on_owner_thread w then Inr w else Inl WrongThread)"

text \<open>
  Modelled from the spec: \<^verbatim>\<open>clg::stack_integrity_check\<close> (the stack integrity guard,
  section 4.1), which \<^verbatim>\<open>ref.hpp\<close> uses and does not define. A scoped object: it
  records the height of the stack of its \<^verbatim>\<open>lua_State*\<close> on entry and asserts on every
  exit of the scope that the height is the same. The scope is the function \<open>body\<close>.
\<close>

definition stack_integrity_check ::
  "lua_ptr option \<Rightarrow> (lua_ptr \<Rightarrow> lua_world \<Rightarrow> fault + ('a \<times> lua_world)) \<Rightarrow> lua_world
     \<Rightarrow> fault + ('a \<times> lua_world)" where
  "stack_integrity_check Lo body w =
     (case Lo of
        None \<Rightarrow> Inl NullState
      | Some L \<Rightarrow>
          and_then (body L w) (\<lambda>(x, w').
            if lua_gettop L w' = lua_gettop L w then Inr (x, w') else Inl StackImbalance))"

text \<open>
  Modelled from the spec: the push capability \<^verbatim>\<open>clg::push_to_lua\<close> of
  \<^verbatim>\<open>converter.hpp\<close> (section 6). The conversion of a native type is a parameter
  \<open>to_lua\<close>, of the type of \<^verbatim>\<open>converter<T>::to_lua\<close>: it returns the number of
  values pushed and the new world. The callers in \<^verbatim>\<open>ref.hpp\<close> are
  \<^verbatim>\<open>noexcept\<close>, so a conversion that throws ends the program there: it is the
  fault \<open>UncaughtException\<close>. \<^verbatim>\<open>push_to_lua\<close> calls the converter; its callers
  drop the count.
\<close>

type_synonym 'a to_lua = "lua_ptr \<Rightarrow> 'a \<Rightarrow> lua_world \<Rightarrow> fault + (int \<times> lua_world)"

definition push_to_lua :: "'a to_lua \<Rightarrow> lua_ptr \<Rightarrow> 'a \<Rightarrow> lua_world \<Rightarrow> fault + lua_world" where
  "push_to_lua to_lua L t w = and_then (to_lua L t w) (\<lambda>(n, w'). Inr w')"

text \<open>
  Modelled from the spec: the typed-read capability \<^verbatim>\<open>clg::get_from_lua<T>\<close> of
  \<^verbatim>\<open>converter.hpp\<close> (section 6): given a thread and a stack position it produces a
  native value or fails with a conversion error. It is a parameter of this type.
\<close>

type_synonym 'a from_lua = "lua_ptr \<Rightarrow> int \<Rightarrow> lua_world \<Rightarrow> (conv_error + 'a) \<times> lua_world"

text \<open>
  Modelled from the spec: the render capability \<^verbatim>\<open>clg::any_to_string\<close> (section 6):
  a best-effort display string of the value at a stack position, never an error. The
  rendering of a value, given the tables and metatables it may look at, is the
  parameter \<open>render\<close>.
\<close>

type_synonym render = "lua_val \<Rightarrow> (addr \<Rightarrow> (lua_val \<rightharpoonup> lua_val)) \<Rightarrow> (lua_val \<rightharpoonup> addr) \<Rightarrow> string"

definition any_to_string :: "render \<Rightarrow> lua_ptr \<Rightarrow> int \<Rightarrow> lua_world \<Rightarrow> string" where
  "any_to_string render L n w =
     render (case lua_at L n w of None \<Rightarrow> LNil | Some v \<Rightarrow> v) (tables w) (metatables w)"

section \<open>The reference handle \<^verbatim>\<open>clg::ref\<close>\<close>

record ref =
  mLua :: "lua_ptr option"
  mPtr :: int

text \<open>\<^verbatim>\<open>ref() = default\<close> and \<^verbatim>\<open>ref(std::nullptr_t)\<close>.\<close>

definition null_ref :: ref where
  "null_ref = \<lparr>mLua = None, mPtr = -1\<rparr>"

definition isNull :: "ref \<Rightarrow> bool" where
  "isNull r = (mPtr r = -1)"

definition lua :: "ref \<Rightarrow> lua_ptr option" where
  "lua r = mLua r"

text \<open>\<^verbatim>\<open>incRef\<close>, on the thread \<open>L\<close> that \<^verbatim>\<open>mLua\<close> points to.\<close>

definition incRef :: "lua_ptr \<Rightarrow> lua_world \<Rightarrow> fault + (int \<times> lua_world)" where
  "incRef L w =
     (if lua_isnil L (-1) w
      then and_then (lua_pop L 1 w) (\<lambda>w1. Inr (-1, w1))
      else luaL_ref L w)"

text \<open>The private constructor \<^verbatim>\<open>ref(lua_State* state)\<close>.\<close>

definition ref_of_state :: "lua_ptr \<Rightarrow> lua_world \<Rightarrow> fault + (ref \<times> lua_world)" where
  "ref_of_state state w =
     and_then (incRef state w) (\<lambda>(p, w1). Inr (\<lparr>mLua = Some state, mPtr = p\<rparr>, w1))"

definition from_stack :: "lua_ptr \<Rightarrow> lua_world \<Rightarrow> fault + (ref \<times> lua_world)" where
  "from_stack state w =
     (if lua_gettop state w > 0 then ref_of_state state w else Inl AssertFailed)"

definition push_value_to_stack :: "ref \<Rightarrow> lua_world \<Rightarrow> fault + lua_world" where
  "push_value_to_stack r w =
     (case mLua r of
        None \<Rightarrow> Inl AssertFailed
      | Some L \<Rightarrow> Inr (lua_rawgeti_registry L (mPtr r) w))"

definition releaseIfNotNull :: "ref \<Rightarrow> lua_world \<Rightarrow> fault + lua_world" where
  "releaseIfNotNull r w =
     (if mPtr r \<noteq> -1
      then and_then (checkThread w) (\<lambda>w1.
             case mLua r of
               None \<Rightarrow> (if mPtr r \<ge> 0 then Inl NullState else Inr w1)
             | Some L \<Rightarrow> Inr (luaL_unref L (mPtr r) w1))
      else Inr w)"

text \<open>
  The copy constructor \<^verbatim>\<open>ref(const ref& other)\<close>: the new handle and the new world.
\<close>

definition copy_ctor :: "ref \<Rightarrow> lua_world \<Rightarrow> fault + (ref \<times> lua_world)" where
  "copy_ctor other w =
     (case mLua other of
        Some L \<Rightarrow>
          and_then (push_value_to_stack other w) (\<lambda>w1.
          and_then (checkThread w1) (\<lambda>w2.
          and_then (incRef L w2) (\<lambda>(p, w3). Inr (\<lparr>mLua = mLua other, mPtr = p\<rparr>, w3))))
      | None \<Rightarrow> Inr (\<lparr>mLua = mLua other, mPtr = -1\<rparr>, w))"

text \<open>
  The move constructor \<^verbatim>\<open>ref(ref&& other)\<close>: the new handle and what is left of
  \<open>other\<close>. No interpreter call.
\<close>

definition move_ctor :: "ref \<Rightarrow> ref \<times> ref" where
  "move_ctor other = (\<lparr>mLua = mLua other, mPtr = mPtr other\<rparr>, other\<lparr>mLua := None, mPtr := -1\<rparr>)"

text \<open>
  \<^verbatim>\<open>operator=(ref&& other)\<close>, for two distinct objects: the assigned handle and what
  is left of \<open>other\<close>.
\<close>

definition move_assign :: "ref \<Rightarrow> ref \<Rightarrow> ref \<times> ref" where
  "move_assign this other =
     (this\<lparr>mLua := mLua other, mPtr := mPtr other\<rparr>, other\<lparr>mLua := None, mPtr := -1\<rparr>)"

text \<open>\<^verbatim>\<open>operator=(const ref& other)\<close>: the assigned handle and the new world.\<close>

definition copy_assign :: "ref \<Rightarrow> ref \<Rightarrow> lua_world \<Rightarrow> fault + (ref \<times> lua_world)" where
  "copy_assign this other w =
     (if mLua this = mLua other \<and> mPtr this = mPtr other then Inr (this, w)
      else (case mLua other of
              Some L \<Rightarrow>
                and_then (push_value_to_stack other w) (\<lambda>w1.
                and_then (checkThread w1) (\<lambda>w2.
                and_then (incRef L w2) (\<lambda>(p, w3). Inr (this\<lparr>mLua := mLua other, mPtr := p\<rparr>, w3))))
            | None \<Rightarrow> Inr (this\<lparr>mLua := mLua other, mPtr := -1\<rparr>, w)))"

text \<open>The destructor \<^verbatim>\<open>~ref()\<close>.\<close>

definition dtor :: "ref \<Rightarrow> lua_world \<Rightarrow> fault + lua_world" where
  "dtor this w = releaseIfNotNull this w"

text \<open>\<^verbatim>\<open>operator=(std::nullptr_t)\<close>: the assigned handle and the new world.\<close>

definition assign_null :: "ref \<Rightarrow> lua_world \<Rightarrow> fault + (ref \<times> lua_world)" where
  "assign_null this w =
     and_then (releaseIfNotNull this w) (\<lambda>w1. Inr (this\<lparr>mPtr := -1\<rparr>, w1))"

definition metatable :: "ref \<Rightarrow> lua_world \<Rightarrow> fault + (ref \<times> lua_world)" where
  "metatable this w =
     stack_integrity_check (mLua this) (\<lambda>L w.
       and_then (push_value_to_stack this w) (\<lambda>w1.
       and_then (lua_getmetatable L (-1) w1) (\<lambda>(has, w2).
         if has
         then and_then (from_stack L w2) (\<lambda>(value, w3).
              and_then (lua_pop L 1 w3) (\<lambda>w4. Inr (value, w4)))
         else and_then (lua_pop L 1 w2) (\<lambda>w3. Inr (null_ref, w3))))) w"

definition set_metatable :: "'a to_lua \<Rightarrow> ref \<Rightarrow> 'a \<Rightarrow> lua_world \<Rightarrow> fault + (unit \<times> lua_world)" where
  "set_metatable to_lua this meta w =
     stack_integrity_check (mLua this) (\<lambda>L w.
       and_then (push_value_to_stack this w) (\<lambda>w1.
       and_then (push_to_lua to_lua L meta w1) (\<lambda>w2.
       and_then (lua_setmetatable L (-2) w2) (\<lambda>w3.
       and_then (lua_pop L 1 w3) (\<lambda>w4. Inr ((), w4)))))) w"

text \<open>The string literal of \<^verbatim>\<open>debug_str\<close>: the word nil between two double quotes.\<close>

definition nil_placeholder :: string where
  "nil_placeholder = [CHR 0x22, CHR ''n'', CHR ''i'', CHR ''l'', CHR 0x22]"

definition debug_str :: "render \<Rightarrow> ref \<Rightarrow> lua_world \<Rightarrow> fault + (string \<times> lua_world)" where
  "debug_str render this w =
     (if isNull this then Inr (nil_placeholder, w)
      else stack_integrity_check (mLua this) (\<lambda>L w.
             and_then (push_value_to_stack this w) (\<lambda>w1.
               let s = any_to_string render L (-1) w1
               in and_then (lua_pop L 1 w1) (\<lambda>w2. Inr (s, w2)))) w)"

text \<open>
  \<^verbatim>\<open>as<T>()\<close>: the result is the value read, or the conversion error that the
  \<^verbatim>\<open>catch\<close> block rethrows after popping.
\<close>

definition ref_as :: "'a from_lua \<Rightarrow> ref \<Rightarrow> lua_world \<Rightarrow> fault + ((conv_error + 'a) \<times> lua_world)" where
  "ref_as get_from_lua this w =
     (if isNull this then Inl AssertFailed
      else stack_integrity_check (mLua this) (\<lambda>L w.
             and_then (push_value_to_stack this w) (\<lambda>w1.
               case get_from_lua L (-1) w1 of
                 (Inr v, w2) \<Rightarrow> and_then (lua_pop L 1 w2) (\<lambda>w3. Inr (Inr v, w3))
               | (Inl e, w2) \<Rightarrow> and_then (lua_pop L 1 w2) (\<lambda>w3. Inr (Inl e, w3)))) w)"

text \<open>\<^verbatim>\<open>is<T>()\<close>: the \<^verbatim>\<open>catch\<close> block pops and returns \<^verbatim>\<open>std::nullopt\<close>.\<close>

definition ref_is :: "'a from_lua \<Rightarrow> ref \<Rightarrow> lua_world \<Rightarrow> fault + ('a option \<times> lua_world)" where
  "ref_is get_from_lua this w =
     (if isNull this then Inl AssertFailed
      else stack_integrity_check (mLua this) (\<lambda>L w.
             and_then (push_value_to_stack this w) (\<lambda>w1.
               case get_from_lua L (-1) w1 of
                 (Inr v, w2) \<Rightarrow> and_then (lua_pop L 1 w2) (\<lambda>w3. Inr (Some v, w3))
               | (Inl e, w2) \<Rightarrow> and_then (lua_pop L 1 w2) (\<lambda>w3. Inr (None, w3)))) w)"

section \<open>The structured view \<^verbatim>\<open>clg::table_view\<close>\<close>

text \<open>A \<^verbatim>\<open>table_view\<close> is a \<^verbatim>\<open>ref\<close>; it adds no field.\<close>

type_synonym table_view = ref

text \<open>
  A \<^verbatim>\<open>std::string_view\<close>: the pointer \<^verbatim>\<open>data()\<close> and the length
  \<^verbatim>\<open>size()\<close>. The content of the view is the first \<open>size_sv\<close> characters at
  \<open>data\<close>; a default view has a null \<open>data\<close> and size 0.
\<close>

record string_view =
  data :: c_ptr
  size_sv :: nat

record value_view =
  table :: table_view
  name :: string_view

text \<open>\<^verbatim>\<open>table_view::operator[]\<close>.\<close>

definition table_view_index :: "table_view \<Rightarrow> string_view \<Rightarrow> fault + value_view" where
  "table_view_index this v =
     (if isNull this then Inl AssertFailed else Inr \<lparr>table = this, name = v\<rparr>)"

text \<open>\<^verbatim>\<open>value_view::ref()\<close>.\<close>

definition value_view_ref :: "callf \<Rightarrow> value_view \<Rightarrow> lua_world \<Rightarrow> fault + (ref \<times> lua_world)" where
  "value_view_ref cf vv w =
     stack_integrity_check (lua (table vv)) (\<lambda>L w.
       and_then (push_value_to_stack (table vv) w) (\<lambda>w1.
         if \<not> lua_istable L (-1) w1
         then and_then (lua_pop L 1 w1) (\<lambda>w2. Inr (null_ref, w2))
         else and_then (lua_getfield cf L (-1) (data (name vv)) w1) (\<lambda>w2.
              and_then (from_stack L w2) (\<lambda>(result, w3).
              and_then (lua_pop L 1 w3) (\<lambda>w4. Inr (result, w4)))))) w"

text \<open>\<^verbatim>\<open>value_view::operator=(const T& t)\<close>.\<close>

definition value_view_assign :: "'a to_lua \<Rightarrow> callf \<Rightarrow> value_view \<Rightarrow> 'a \<Rightarrow> lua_world \<Rightarrow> fault + ('a \<times> lua_world)" where
  "value_view_assign to_lua cf vv t w =
     stack_integrity_check (lua (table vv)) (\<lambda>L w.
       and_then (push_value_to_stack (table vv) w) (\<lambda>w1.
       and_then (lua_pushstring L (data (name vv)) w1) (\<lambda>w2.
       and_then (push_to_lua to_lua L t w2) (\<lambda>w3.
       and_then (lua_settable cf L (-3) w3) (\<lambda>w4.
       and_then (lua_pop L 1 w4) (\<lambda>w5. Inr (t, w5))))))) w"

text \<open>\<^verbatim>\<open>table_view::raw_set(key, value)\<close>.\<close>

definition raw_set :: "'k to_lua \<Rightarrow> 'v to_lua \<Rightarrow> table_view \<Rightarrow> 'k \<Rightarrow> 'v \<Rightarrow> lua_world \<Rightarrow> fault + (unit \<times> lua_world)" where
  "raw_set key_to_lua value_to_lua this key val w =
     stack_integrity_check (lua this) (\<lambda>L w.
       and_then (push_value_to_stack this w) (\<lambda>w1.
       and_then (push_to_lua key_to_lua L key w1) (\<lambda>w2.
       and_then (push_to_lua value_to_lua L val w2) (\<lambda>w3.
       and_then (lua_rawset L (-3) w3) (\<lambda>w4.
       and_then (lua_pop L 1 w4) (\<lambda>w5. Inr ((), w5))))))) w"

section \<open>The converter of handles, \<^verbatim>\<open>converter<clg::ref>\<close>\<close>

definition converter_ref_from_lua :: "lua_ptr \<Rightarrow> int \<Rightarrow> lua_world \<Rightarrow> fault + (ref \<times> lua_world)" where
  "converter_ref_from_lua l n w =
     and_then (lua_pushvalue l n w) (\<lambda>w1. from_stack l w1)"

definition converter_ref_to_lua :: "lua_ptr \<Rightarrow> ref \<Rightarrow> lua_world \<Rightarrow> fault + (int \<times> lua_world)" where
  "converter_ref_to_lua l r w =
     (if isNull r then Inr (1, lua_pushnil l w)
      else and_then (push_value_to_stack r w) (\<lambda>w1. Inr (1, w1)))"

section \<open>Observing an outcome\<close>

definition outcome_world :: "fault + ('a \<times> lua_world) \<Rightarrow> lua_world option" where
  "outcome_world m = (case m of Inl e \<Rightarrow> None | Inr (x, w) \<Rightarrow> Some w)"

definition outcome_value :: "fault + ('a \<times> lua_world) \<Rightarrow> 'a option" where
  "outcome_value m = (case m of Inl e \<Rightarrow> None | Inr (x, w) \<Rightarrow> Some x)"

definition registry_value :: "lua_world \<Rightarrow> int \<Rightarrow> lua_val" where
  "registry_value w n = (case refs w n of None \<Rightarrow> LNil | Some v \<Rightarrow> v)"

text \<open>An interpreter with one empty stack per thread, nothing registered, no table.\<close>

definition fresh_world :: lua_world where
  "fresh_world =
     \<lparr>stacks = (\<lambda>L. []), refs = Map.empty, free_refs = [], last_ref = 0,
      tables = (\<lambda>a. Map.empty), metatables = Map.empty, on_owner_thread = True\<rparr>"

text \<open>Thread 0 holds the number 42 on its stack.\<close>

definition one_value_world :: lua_world where
  "one_value_world = lua_push 0 (LNumber 42) fresh_world"

text \<open>The number 42 is registered under key 1.\<close>

definition held_world :: lua_world where
  "held_world = fresh_world\<lparr>refs := [1 \<mapsto> LNumber 42], last_ref := 1\<rparr>"

section \<open>Handle lifetimes\<close>

text \<open>Thread 0 holds the numbers 1 and 2 on its stack, 2 on top.\<close>

definition two_values_world :: lua_world where
  "two_values_world = lua_push 0 (LNumber 2) (lua_push 0 (LNumber 1) fresh_world)"

text \<open>
  \<^verbatim>\<open>{ ref a = ref::from_stack(L); ref b = ref::from_stack(L); a = b; }\<close>:
  two handles are captured, the second is copy-assigned to the first, and both are
  destroyed at the end of the scope, in reverse order of construction.
\<close>

definition copy_assign_scenario :: "fault + lua_world" where
  "copy_assign_scenario =
     and_then (from_stack 0 two_values_world) (\<lambda>(a, w1).
     and_then (from_stack 0 w1) (\<lambda>(b, w2).
     and_then (copy_assign a b w2) (\<lambda>(a', w3).
     and_then (dtor b w3) (\<lambda>w4.
     dtor a' w4))))"

text \<open>The same scope with \<^verbatim>\<open>a = std::move(b);\<close>.\<close>

definition move_assign_scenario :: "fault + lua_world" where
  "move_assign_scenario =
     and_then (from_stack 0 two_values_world) (\<lambda>(a, w1).
     and_then (from_stack 0 w1) (\<lambda>(b, w2).
       case move_assign a b of (a', b') \<Rightarrow>
         and_then (dtor b' w2) (\<lambda>w3.
         dtor a' w3)))"

definition registered_after :: "fault + lua_world \<Rightarrow> int \<Rightarrow> lua_val option" where
  "registered_after m n = (case m of Inl e \<Rightarrow> None | Inr w \<Rightarrow> refs w n)"

text \<open>
  The registry as \<^verbatim>\<open>luaL_ref\<close> and \<^verbatim>\<open>luaL_unref\<close> keep it when every key is
  released once at most: the released keys are distinct, non-negative and not in
  use, and no key above the last one handed out is in use.
\<close>

definition registry_wf :: "lua_world \<Rightarrow> bool" where
  "registry_wf w \<longleftrightarrow>
     (\<forall>r \<in> set (free_refs w). 0 \<le> r \<and> refs w r = None)
     \<and> distinct (free_refs w)
     \<and> (\<forall>r. last_ref w < r \<longrightarrow> refs w r = None)
     \<and> 0 \<le> last_ref w"

section \<open>Keyed access through the proxy\<close>

text \<open>\<^verbatim>\<open>view[k].ref()\<close>: \<^verbatim>\<open>operator[]\<close>, then \<^verbatim>\<open>value_view::ref\<close>.\<close>

definition keyed_get :: "callf \<Rightarrow> table_view \<Rightarrow> string_view \<Rightarrow> lua_world \<Rightarrow> fault + (ref \<times> lua_world)" where
  "keyed_get cf view k w =
     and_then (table_view_index view k) (\<lambda>vv. value_view_ref cf vv w)"

text \<open>\<^verbatim>\<open>view[k] = t\<close>: \<^verbatim>\<open>operator[]\<close>, then \<^verbatim>\<open>value_view::operator=\<close>.\<close>

definition keyed_set :: "'a to_lua \<Rightarrow> callf \<Rightarrow> table_view \<Rightarrow> string_view \<Rightarrow> 'a \<Rightarrow> lua_world \<Rightarrow> fault + ('a \<times> lua_world)" where
  "keyed_set to_lua cf view k t w =
     and_then (table_view_index view k) (\<lambda>vv. value_view_assign to_lua cf vv t w)"

text \<open>
  Modelled from the spec: a converter of plain data (a number, a string, a boolean),
  as \<^verbatim>\<open>converter.hpp\<close> provides them: it pushes one value, the representation
  \<open>repr t\<close> of the native value, and touches nothing else.
\<close>

definition pure_to_lua :: "('a \<Rightarrow> lua_val) \<Rightarrow> 'a to_lua" where
  "pure_to_lua repr L t w = Inr (1, lua_push L (repr t) w)"


text \<open>The view of a string literal: its characters, then the terminating NUL.\<close>

definition literal_view :: "string \<Rightarrow> string_view" where
  "literal_view s = \<lparr>data = Some (s @ [CHR 0x00]), size_sv = length s\<rparr>"


text \<open>An interpreter in which every call of a function value raises an error.\<close>

definition no_functions :: callf where
  "no_functions f args w = None"


text \<open>
  Slot 1 holds table 2, which has the key \<^verbatim>\<open>x\<close>; its metatable is table 3, whose
  \<^verbatim>\<open>__newindex\<close> is table 4.
\<close>

definition shadow_world :: lua_world where
  "shadow_world =
     fresh_world\<lparr>refs := [1 \<mapsto> LTable 2], last_ref := 1,
       tables := (\<lambda>a. Map.empty)(2 := [LString ''x'' \<mapsto> LNumber 1],
                                   3 := [LString ''__newindex'' \<mapsto> LTable 4]),
       metatables := [LTable 2 \<mapsto> 3]\<rparr>"



text \<open>
  Two threads of one interpreter. Thread 0 holds the number 5 on its stack; slot 1
  holds table 2 and slot 2 holds table 3.
\<close>

definition two_contexts_world :: lua_world where
  "two_contexts_world =
     fresh_world\<lparr>stacks := (\<lambda>L. [])(0 := [LNumber 5]),
       refs := [1 \<mapsto> LTable 2, 2 \<mapsto> LTable 3], last_ref := 2\<rparr>"


section \<open>Sequences of operations\<close>

text \<open>The height of every stack of the interpreter.\<close>

definition stack_heights :: "lua_world \<Rightarrow> lua_ptr \<Rightarrow> nat" where
  "stack_heights w L = length (stacks w L)"

text \<open>
  What section 6 of the spec asks of the capabilities: a push pushes one value on the
  stack of the thread it is given, and a typed read leaves every stack at its height,
  whether it returns a value or fails with a conversion error.
\<close>

definition push_contract :: "'a to_lua \<Rightarrow> bool" where
  "push_contract to_lua \<longleftrightarrow>
     (\<forall>L t w. to_lua L t w \<noteq> Inl StackImbalance)
     \<and> (\<forall>L t w n w'. to_lua L t w = Inr (n, w') \<longrightarrow>
           stack_heights w' = (stack_heights w)(L := Suc (stack_heights w L)))"

definition read_contract :: "'a from_lua \<Rightarrow> bool" where
  "read_contract get_from_lua \<longleftrightarrow>
     (\<forall>L n w. stack_heights (snd (get_from_lua L n w)) = stack_heights w)"

text \<open>
  The public operations on a handle or a view that go to the interpreter. A statement
  that calls one of them and drops the result: a conversion error thrown by
  \<^verbatim>\<open>as\<close> is caught by the caller, and a handle returned as a temporary is
  destroyed at the end of the statement.
\<close>

datatype ('k, 'v) handle_op =
    ReadAs ref
  | TryReadAs ref
  | Metatable ref
  | SetMetatable ref 'v
  | DebugStr ref
  | KeyedGet table_view string_view
  | KeyedSet table_view string_view 'v
  | RawSet table_view 'k 'v

definition discard :: "fault + ('a \<times> lua_world) \<Rightarrow> fault + lua_world" where
  "discard m = and_then m (\<lambda>(x, w). Inr w)"

fun run_op ::
  "'a from_lua \<Rightarrow> 'k to_lua \<Rightarrow> 'v to_lua \<Rightarrow> callf \<Rightarrow> render \<Rightarrow> ('k, 'v) handle_op \<Rightarrow> lua_world
     \<Rightarrow> fault + lua_world" where
  "run_op rd kl vl cf rn (ReadAs h) w = discard (ref_as rd h w)"
| "run_op rd kl vl cf rn (TryReadAs h) w = discard (ref_is rd h w)"
| "run_op rd kl vl cf rn (Metatable h) w = and_then (metatable h w) (\<lambda>(m, w1). dtor m w1)"
| "run_op rd kl vl cf rn (SetMetatable h v) w = discard (set_metatable vl h v w)"
| "run_op rd kl vl cf rn (DebugStr h) w = discard (debug_str rn h w)"
| "run_op rd kl vl cf rn (KeyedGet view k) w =
     and_then (keyed_get cf view k w) (\<lambda>(r, w1). dtor r w1)"
| "run_op rd kl vl cf rn (KeyedSet view k v) w = discard (keyed_set vl cf view k v w)"
| "run_op rd kl vl cf rn (RawSet view k v) w = discard (raw_set kl vl view k v w)"

fun run_ops ::
  "'a from_lua \<Rightarrow> 'k to_lua \<Rightarrow> 'v to_lua \<Rightarrow> callf \<Rightarrow> render \<Rightarrow> ('k, 'v) handle_op list \<Rightarrow> lua_world
     \<Rightarrow> fault + lua_world" where
  "run_ops rd kl vl cf rn [] w = Inr w"
| "run_ops rd kl vl cf rn (x # xs) w =
     and_then (run_op rd kl vl cf rn x w) (run_ops rd kl vl cf rn xs)"

text \<open>A typed read of a number: any other value is a conversion error.\<close>

definition number_from_lua :: "int from_lua" where
  "number_from_lua L n w =
     (case lua_at L n w of Some (LNumber i) \<Rightarrow> (Inr i, w) | _ \<Rightarrow> (Inl ConversionError, w))"

section \<open>Stack and registry lemmas\<close>

lemma lua_push_simps:
  "stacks (lua_push L v w) = (stacks w)(L := stacks w L @ [v])"
  "refs (lua_push L v w) = refs w"
  "free_refs (lua_push L v w) = free_refs w"
  "last_ref (lua_push L v w) = last_ref w"
  "tables (lua_push L v w) = tables w"
  "metatables (lua_push L v w) = metatables w"
  "on_owner_thread (lua_push L v w) = on_owner_thread w"
  by (simp_all add: lua_push_def)

lemma push_pop_restore:
  "lua_pop L (Suc 0) (lua_push L v w) = Inr w"
  by (simp add: lua_pop_def lua_push_def)

lemma lua_at_push [simp]: "lua_at L (-1) (lua_push L v w) = Some v"
  by (simp add: lua_at_def lua_push_def Let_def)

text \<open>What \<open>from_stack\<close> does to a stack whose top is \<open>v\<close>.\<close>

lemma from_stack_push:
  "from_stack L (lua_push L v w) =
     (if v = LNil then Inr (\<lparr>mLua = Some L, mPtr = -1\<rparr>, w)
      else (case free_refs w of
              r # fs \<Rightarrow> Inr (\<lparr>mLua = Some L, mPtr = r\<rparr>, w\<lparr>refs := (refs w)(r \<mapsto> v), free_refs := fs\<rparr>)
            | [] \<Rightarrow> Inr (\<lparr>mLua = Some L, mPtr = last_ref w + 1\<rparr>,
                       w\<lparr>refs := (refs w)(last_ref w + 1 \<mapsto> v), last_ref := last_ref w + 1\<rparr>)))"
  by (simp add: from_stack_def ref_of_state_def incRef_def lua_isnil_def luaL_ref_def
      LUA_REFNIL_def lua_gettop_def and_then_def lua_push_def lua_at_def lua_pop_def Let_def
      split: list.splits)

section \<open>Capturing the top of the stack\<close>

lemma lua_at_top:
  "stacks w L \<noteq> [] \<Longrightarrow> lua_at L (-1) w = Some (last (stacks w L))"
  by (cases "stacks w L" rule: rev_cases) (simp_all add: lua_at_def Let_def)

lemma lua_pop_one:
  "stacks w L \<noteq> [] \<Longrightarrow>
     lua_pop L (Suc 0) w = Inr (w\<lparr>stacks := (stacks w)(L := butlast (stacks w L))\<rparr>)"
  by (cases "stacks w L" rule: rev_cases) (simp_all add: lua_pop_def)

text \<open>
  C5. When the value on top of the stack is nil, \<open>from_stack\<close> returns a handle with
  \<open>isNull\<close> true, and the registry after the call is the registry before it: no slot
  is registered for the nil.
\<close>

theorem from_stack_nil_is_null:
  assumes "stacks w L \<noteq> []" and "last (stacks w L) = LNil"
  shows "\<exists>r w'. from_stack L w = Inr (r, w') \<and> isNull r \<and> refs w' = refs w
           \<and> free_refs w' = free_refs w \<and> last_ref w' = last_ref w"
  using assms
  by (simp add: from_stack_def ref_of_state_def incRef_def lua_isnil_def lua_at_top
      lua_pop_one lua_gettop_def and_then_def isNull_def)

theorem from_stack_nil_is_null_witness:
  "stacks (lua_pushnil 0 fresh_world) 0 \<noteq> []
   \<and> last (stacks (lua_pushnil 0 fresh_world) 0) = LNil
   \<and> (\<exists>r w'. from_stack 0 (lua_pushnil 0 fresh_world) = Inr (r, w') \<and> isNull r
         \<and> refs w' = refs (lua_pushnil 0 fresh_world))"
proof -
  have ne: "stacks (lua_pushnil 0 fresh_world) 0 \<noteq> []"
    by (simp add: lua_pushnil_def lua_push_def fresh_world_def)
  have top: "last (stacks (lua_pushnil 0 fresh_world) 0) = LNil"
    by (simp add: lua_pushnil_def lua_push_def fresh_world_def)
  from from_stack_nil_is_null [OF ne top] ne top show ?thesis
    by blast
qed

text \<open>
  C1 (as amended). On a non-empty stack \<open>from_stack\<close> returns, and it consumes the
  value it captures: the stack after the call is the stack before it without its top,
  one lower. A nil top gives a handle with \<open>isNull\<close> true and an unchanged registry;
  any other top is stored in the registry under the slot of the returned handle.
\<close>

theorem from_stack_consumes_top:
  assumes "stacks w L \<noteq> []"
  shows "\<exists>r w'. from_stack L w = Inr (r, w')
           \<and> stacks w' = (stacks w)(L := butlast (stacks w L))
           \<and> lua_gettop L w' = lua_gettop L w - 1
           \<and> mLua r = Some L
           \<and> (if last (stacks w L) = LNil then isNull r \<and> refs w' = refs w
               else refs w' = (refs w)(mPtr r \<mapsto> last (stacks w L)))"
proof -
  from assms obtain xs v where st: "stacks w L = xs @ [v]"
    by (cases "stacks w L" rule: rev_cases) auto
  define w0 where "w0 = w\<lparr>stacks := (stacks w)(L := xs)\<rparr>"
  have "(stacks w)(L := xs @ [v]) = stacks w"
    using st by (metis fun_upd_triv)
  then have w: "w = lua_push L v w0"
    by (simp add: w0_def lua_push_def)
  show ?thesis
    unfolding w from_stack_push
    by (simp add: lua_push_def lua_gettop_def isNull_def w0_def split: list.splits)
qed

theorem from_stack_consumes_top_witness:
  "stacks one_value_world 0 \<noteq> []
   \<and> (\<exists>r w'. from_stack 0 one_value_world = Inr (r, w')
         \<and> lua_gettop 0 w' = lua_gettop 0 one_value_world - 1
         \<and> refs w' (mPtr r) = Some (LNumber 42))"
proof -
  have ne: "stacks one_value_world 0 \<noteq> []"
    by (simp add: one_value_world_def lua_push_def fresh_world_def)
  have l: "last (stacks one_value_world 0) = LNumber 42"
    by (simp add: one_value_world_def lua_push_def fresh_world_def)
  from from_stack_consumes_top [OF ne] obtain r w' where
    "from_stack 0 one_value_world = Inr (r, w')"
    "lua_gettop 0 w' = lua_gettop 0 one_value_world - 1"
    "if last (stacks one_value_world 0) = LNil then isNull r \<and> refs w' = refs one_value_world
     else refs w' = (refs one_value_world)(mPtr r \<mapsto> last (stacks one_value_world 0))"
    by blast
  with ne l show ?thesis by simp
qed

text \<open>
  C1 as stated fails: with the single value 42 on the stack, the height is 1 before
  \<open>from_stack\<close> and 0 after it.
\<close>

theorem from_stack_height_counterexample:
  "lua_gettop 0 one_value_world = 1
   \<and> map_option (lua_gettop 0) (outcome_world (from_stack 0 one_value_world)) = Some 0"
proof -
  have "from_stack 0 one_value_world = Inr (\<lparr>mLua = Some 0, mPtr = 1\<rparr>, held_world)"
    unfolding one_value_world_def from_stack_push
    by (simp add: fresh_world_def held_world_def)
  then show ?thesis
    by (simp add: outcome_world_def one_value_world_def lua_gettop_def lua_push_def
        fresh_world_def held_world_def)
qed

section \<open>Assigning null\<close>

text \<open>
  C3 (as amended). Assigning null to a handle \<open>h\<close> (on the owner thread, \<open>h\<close> having a
  context when it has a slot) releases the slot of \<open>h\<close> if it has one, leaves every
  stack as it was, and leaves \<open>h\<close> with the sentinel slot, so \<open>isNull\<close> is true; the
  context of \<open>h\<close> is what it was before the assignment.
\<close>

theorem assign_null_keeps_context:
  assumes "\<not> isNull h \<Longrightarrow> on_owner_thread w \<and> mLua h \<noteq> None"
  shows "assign_null h w =
           Inr (h\<lparr>mPtr := -1\<rparr>,
                if 0 \<le> mPtr h
                then w\<lparr>refs := (refs w)(mPtr h := None), free_refs := mPtr h # free_refs w\<rparr>
                else w)
         \<and> isNull (h\<lparr>mPtr := -1\<rparr>) \<and> mLua (h\<lparr>mPtr := -1\<rparr>) = mLua h"
  using assms
  by (auto simp add: assign_null_def releaseIfNotNull_def checkThread_def and_then_def
      luaL_unref_def isNull_def)

theorem assign_null_keeps_context_witness:
  "assign_null \<lparr>mLua = Some 0, mPtr = 1\<rparr> held_world =
     Inr (\<lparr>mLua = Some 0, mPtr = -1\<rparr>,
          held_world\<lparr>refs := (refs held_world)(1 := None), free_refs := 1 # free_refs held_world\<rparr>)"
proof -
  have "\<not> isNull \<lparr>mLua = Some 0, mPtr = 1\<rparr> \<Longrightarrow>
          on_owner_thread held_world \<and> mLua \<lparr>mLua = Some 0, mPtr = 1\<rparr> \<noteq> None"
    by (simp add: held_world_def fresh_world_def)
  from assign_null_keeps_context [OF this] show ?thesis by simp
qed

text \<open>
  C3 as stated fails: after assigning null to a handle of thread 0 that owns slot 1,
  the context of the handle is still thread 0, and the handle is not the canonical
  null handle.
\<close>

theorem assign_null_context_counterexample:
  "map_option mLua (outcome_value (assign_null \<lparr>mLua = Some 0, mPtr = 1\<rparr> held_world)) = Some (Some 0)
   \<and> outcome_value (assign_null \<lparr>mLua = Some 0, mPtr = 1\<rparr> held_world) \<noteq> Some null_ref"
  by (simp add: assign_null_def releaseIfNotNull_def checkThread_def and_then_def
      luaL_unref_def held_world_def fresh_world_def outcome_value_def null_ref_def)

section \<open>The debug string\<close>

text \<open>
  C6. For a null handle \<open>debug_str\<close> returns the placeholder, the word nil between
  double quotes, and the world untouched. For a non-null handle (which has a context)
  it returns the rendering of the registered value; the push and the pop cancel, so
  the world is the one before the call, and there is no fault.
\<close>

theorem debug_str_total:
  "(isNull r \<longrightarrow>
      debug_str render r w = Inr ([CHR 0x22, CHR ''n'', CHR ''i'', CHR ''l'', CHR 0x22], w))
   \<and> (\<not> isNull r \<and> mLua r = Some L \<longrightarrow>
      debug_str render r w =
        Inr (render (registry_value w (mPtr r)) (tables w) (metatables w), w))"
  by (simp add: debug_str_def nil_placeholder_def stack_integrity_check_def
      push_value_to_stack_def lua_rawgeti_registry_def push_pop_restore and_then_def
      any_to_string_def registry_value_def lua_push_simps Let_def)

theorem debug_str_total_witness:
  "debug_str (\<lambda>v t m. ''?'') null_ref fresh_world = Inr ([CHR 0x22, CHR ''n'', CHR ''i'', CHR ''l'', CHR 0x22], fresh_world)
   \<and> debug_str (\<lambda>v t m. if v = LNumber 42 then ''42'' else ''?'') \<lparr>mLua = Some 0, mPtr = 1\<rparr> held_world
       = Inr (''42'', held_world)"
  using debug_str_total [of null_ref "\<lambda>v t m. ''?''" fresh_world 0]
    debug_str_total [of "\<lparr>mLua = Some 0, mPtr = 1\<rparr>" "\<lambda>v t m. if v = LNumber 42 then ''42'' else ''?''" held_world 0]
  by (simp add: isNull_def null_ref_def registry_value_def held_world_def fresh_world_def)

section \<open>The converter of handles\<close>

text \<open>
  C10. For a null handle \<open>r\<close>, \<open>to_lua\<close> pushes nil and reports one value pushed;
  \<open>from_lua\<close> at a stack position that holds nil returns a null handle and leaves the
  world as it was; so pushing a null handle and reading the top back gives a null
  handle.
\<close>

theorem null_handle_round_trip:
  assumes "isNull r"
  shows "converter_ref_to_lua l r w = Inr (1, lua_push l LNil w)
         \<and> (\<forall>n. lua_at l n w = Some LNil \<longrightarrow>
               converter_ref_from_lua l n w = Inr (\<lparr>mLua = Some l, mPtr = -1\<rparr>, w))
         \<and> and_then (converter_ref_to_lua l r w) (\<lambda>(c, w1). converter_ref_from_lua l (-1) w1)
             = Inr (\<lparr>mLua = Some l, mPtr = -1\<rparr>, lua_push l LNil w)
         \<and> isNull \<lparr>mLua = Some l, mPtr = -1\<rparr>"
  using assms
  by (simp add: converter_ref_to_lua_def converter_ref_from_lua_def lua_pushnil_def
      lua_pushvalue_def and_then_def from_stack_push isNull_def)

theorem null_handle_round_trip_witness:
  "isNull null_ref
   \<and> converter_ref_to_lua 0 null_ref fresh_world = Inr (1, lua_push 0 LNil fresh_world)
   \<and> lua_at 0 1 (lua_push 0 LNil fresh_world) = Some LNil
   \<and> converter_ref_from_lua 0 1 (lua_push 0 LNil fresh_world)
       = Inr (\<lparr>mLua = Some 0, mPtr = -1\<rparr>, lua_push 0 LNil fresh_world)"
proof -
  have n: "isNull null_ref" by (simp add: isNull_def null_ref_def)
  have a: "lua_at 0 1 (lua_push 0 LNil fresh_world) = Some LNil"
    by (simp add: lua_at_def lua_push_def fresh_world_def Let_def)
  have b: "isNull \<lparr>mLua = Some 0, mPtr = -1\<rparr>" by (simp add: isNull_def)
  from null_handle_round_trip [OF n, of 0 fresh_world]
    null_handle_round_trip [OF b, of 0 "lua_push 0 LNil fresh_world"] n a
  show ?thesis by blast
qed

section \<open>Copies, assignments and releases\<close>

lemma incRef_push:
  "incRef L (lua_push L v w) =
     (if v = LNil then Inr (-1, w)
      else (case free_refs w of
              r # fs \<Rightarrow> Inr (r, w\<lparr>refs := (refs w)(r \<mapsto> v), free_refs := fs\<rparr>)
            | [] \<Rightarrow> Inr (last_ref w + 1,
                       w\<lparr>refs := (refs w)(last_ref w + 1 \<mapsto> v), last_ref := last_ref w + 1\<rparr>)))"
  by (simp add: incRef_def lua_isnil_def luaL_ref_def
      LUA_REFNIL_def and_then_def lua_push_def lua_at_def lua_pop_def Let_def
      split: list.splits)

lemma copy_ctor_registered:
  assumes "mLua h = Some L" "on_owner_thread w"
  shows "copy_ctor h w =
           and_then (incRef L (lua_push L (registry_value w (mPtr h)) w))
             (\<lambda>(p, w3). Inr (\<lparr>mLua = Some L, mPtr = p\<rparr>, w3))"
  using assms
  by (simp add: copy_ctor_def push_value_to_stack_def lua_rawgeti_registry_def
      checkThread_def and_then_def registry_value_def lua_push_simps)

lemma copy_assign_registered:
  assumes "mLua other = Some L" "on_owner_thread w" "mLua this \<noteq> mLua other \<or> mPtr this \<noteq> mPtr other"
  shows "copy_assign this other w =
           and_then (incRef L (lua_push L (registry_value w (mPtr other)) w))
             (\<lambda>(p, w3). Inr (this\<lparr>mLua := Some L, mPtr := p\<rparr>, w3))"
  using assms
  by (auto simp add: copy_assign_def push_value_to_stack_def lua_rawgeti_registry_def
      checkThread_def and_then_def registry_value_def lua_push_simps)

lemmas handle_eval =
  from_stack_def ref_of_state_def incRef_def lua_isnil_def luaL_ref_def LUA_REFNIL_def
  lua_gettop_def lua_at_def lua_pop_def lua_push_def Let_def and_then_def
  copy_assign_def copy_ctor_def move_assign_def move_ctor_def push_value_to_stack_def
  lua_rawgeti_registry_def checkThread_def dtor_def releaseIfNotNull_def luaL_unref_def
  assign_null_def

text \<open>
  C2. The ownership discipline fails on assignment. In both scopes slot 1 is
  registered by the first handle, the assignment overwrites that handle's slot without
  releasing it, and after both destructors have run slot 1 still holds the number 2:
  it is never released.
\<close>

theorem assignment_leaks_previous_slot:
  "\<not> isl copy_assign_scenario \<and> registered_after copy_assign_scenario 1 = Some (LNumber 2)
   \<and> \<not> isl move_assign_scenario \<and> registered_after move_assign_scenario 1 = Some (LNumber 2)"
proof -
  have c: "copy_assign_scenario =
             Inr (fresh_world\<lparr>refs := [1 \<mapsto> LNumber 2], free_refs := [3, 2], last_ref := 3\<rparr>)"
    by (simp add: copy_assign_scenario_def two_values_world_def fresh_world_def handle_eval)
      (simp add: fun_eq_iff)
  have m: "move_assign_scenario =
             Inr (fresh_world\<lparr>refs := [1 \<mapsto> LNumber 2], free_refs := [2], last_ref := 2\<rparr>)"
    by (simp add: move_assign_scenario_def two_values_world_def fresh_world_def handle_eval)
      (simp add: fun_eq_iff)
  show ?thesis
    by (simp add: c m registered_after_def)
qed

lemma debug_str_non_null:
  "\<not> isNull r \<Longrightarrow> mLua r = Some L \<Longrightarrow>
     debug_str render r w =
        Inr (render (registry_value w (mPtr r)) (tables w) (metatables w), w)"
  by (simp add: debug_str_def stack_integrity_check_def
      push_value_to_stack_def lua_rawgeti_registry_def push_pop_restore and_then_def
      any_to_string_def registry_value_def lua_push_simps Let_def)

text \<open>
  C9. Copying a non-null handle \<open>h\<close> that holds a registered value \<open>v\<close> (on the owner
  thread, in a registry whose released keys are not in use) gives a non-null handle of
  the same context with a slot of its own: the slot was not in use before, differs
  from the slot of \<open>h\<close>, and holds \<open>v\<close>. Destroying the copy releases that slot only:
  the slot of \<open>h\<close> still holds \<open>v\<close>, \<open>h\<close> is not null, the stacks are as before the
  copy, and the debug string of \<open>h\<close> is the one it had before the copy.
\<close>

theorem copy_then_destroy_leaves_original:
  assumes wf: "registry_wf w" and th: "on_owner_thread w"
    and nn: "\<not> isNull h" and ctx: "mLua h = Some L"
    and reg: "refs w (mPtr h) = Some v" and v: "v \<noteq> LNil"
  shows "\<exists>c w1 w2.
           copy_ctor h w = Inr (c, w1)
           \<and> mLua c = mLua h \<and> \<not> isNull c \<and> mPtr c \<noteq> mPtr h
           \<and> refs w (mPtr c) = None \<and> refs w1 (mPtr c) = Some v \<and> refs w1 (mPtr h) = Some v
           \<and> dtor c w1 = Inr w2
           \<and> refs w2 (mPtr h) = Some v \<and> stacks w2 = stacks w
           \<and> \<not> isNull h
           \<and> debug_str render h w2 = Inr (render v (tables w) (metatables w), w2)
           \<and> debug_str render h w = Inr (render v (tables w) (metatables w), w)"
proof -
  define p where "p = (case free_refs w of r # fs \<Rightarrow> r | [] \<Rightarrow> last_ref w + 1)"
  define w1 where "w1 = (case free_refs w of
       r # fs \<Rightarrow> w\<lparr>refs := (refs w)(r \<mapsto> v), free_refs := fs\<rparr>
     | [] \<Rightarrow> w\<lparr>refs := (refs w)(last_ref w + 1 \<mapsto> v), last_ref := last_ref w + 1\<rparr>)"
  define c where "c = \<lparr>mLua = Some L, mPtr = p\<rparr>"
  define w2 where "w2 = w1\<lparr>refs := (refs w1)(p := None), free_refs := p # free_refs w1\<rparr>"
  have rv: "registry_value w (mPtr h) = v"
    using reg by (simp add: registry_value_def)
  have copy: "copy_ctor h w = Inr (c, w1)"
    using v by (simp add: copy_ctor_registered [OF ctx th] rv incRef_push and_then_def
        c_def p_def w1_def split: list.splits)
  have fresh: "refs w p = None" and pos: "0 \<le> p"
    using wf by (auto simp add: registry_wf_def p_def split: list.splits)
  have ne: "p \<noteq> mPtr h"
    using fresh reg by auto
  have r1: "refs w1 = (refs w)(p \<mapsto> v)"
    by (simp add: w1_def p_def split: list.splits)
  have st1: "stacks w1 = stacks w" "tables w1 = tables w" "metatables w1 = metatables w"
    "on_owner_thread w1 = on_owner_thread w"
    by (simp_all add: w1_def split: list.splits)
  have d: "dtor c w1 = Inr w2"
    using pos th by (simp add: dtor_def releaseIfNotNull_def checkThread_def and_then_def
        luaL_unref_def c_def w2_def st1)
  have r2: "refs w2 (mPtr h) = Some v"
    using ne reg by (simp add: w2_def r1)
  have st2: "stacks w2 = stacks w" "tables w2 = tables w" "metatables w2 = metatables w"
    by (simp_all add: w2_def st1)
  have ds2: "debug_str render h w2 = Inr (render v (tables w) (metatables w), w2)"
    using r2 by (simp add: debug_str_non_null [OF nn ctx] registry_value_def st2)
  have ds: "debug_str render h w = Inr (render v (tables w) (metatables w), w)"
    by (simp add: debug_str_non_null [OF nn ctx] rv)
  have "mLua c = mLua h" "\<not> isNull c" "mPtr c \<noteq> mPtr h" "refs w (mPtr c) = None"
    "refs w1 (mPtr c) = Some v" "refs w1 (mPtr h) = Some v"
    using pos ne fresh reg by (simp_all add: c_def ctx isNull_def r1)
  with copy d r2 st2 nn ds2 ds show ?thesis
    by blast
qed

theorem copy_then_destroy_leaves_original_witness:
  "registry_wf held_world \<and> on_owner_thread held_world
   \<and> \<not> isNull \<lparr>mLua = Some 0, mPtr = 1\<rparr>
   \<and> refs held_world (mPtr \<lparr>mLua = Some 0, mPtr = 1\<rparr>) = Some (LNumber 42)
   \<and> (\<exists>c w1 w2. copy_ctor \<lparr>mLua = Some 0, mPtr = 1\<rparr> held_world = Inr (c, w1)
         \<and> mPtr c \<noteq> 1 \<and> dtor c w1 = Inr w2 \<and> refs w2 1 = Some (LNumber 42)
         \<and> stacks w2 = stacks held_world)"
proof -
  have wf: "registry_wf held_world"
    by (simp add: registry_wf_def held_world_def fresh_world_def)
  have th: "on_owner_thread held_world"
    by (simp add: held_world_def fresh_world_def)
  have nn: "\<not> isNull \<lparr>mLua = Some 0, mPtr = 1\<rparr>"
    by (simp add: isNull_def)
  have ctx: "mLua \<lparr>mLua = Some 0, mPtr = 1\<rparr> = Some 0"
    by simp
  have reg: "refs held_world (mPtr \<lparr>mLua = Some 0, mPtr = 1\<rparr>) = Some (LNumber 42)"
    by (simp add: held_world_def fresh_world_def)
  have v: "LNumber 42 \<noteq> LNil"
    by simp
  from copy_then_destroy_leaves_original [OF wf th nn ctx reg v, of "\<lambda>v t m. []"]
  obtain c w1 w2 where
    "copy_ctor \<lparr>mLua = Some 0, mPtr = 1\<rparr> held_world = Inr (c, w1)"
    "mPtr c \<noteq> mPtr \<lparr>mLua = Some 0, mPtr = 1\<rparr>" "dtor c w1 = Inr w2"
    "refs w2 (mPtr \<lparr>mLua = Some 0, mPtr = 1\<rparr>) = Some (LNumber 42)"
    "stacks w2 = stacks held_world"
    by blast
  with wf th nn reg show ?thesis
    by auto
qed

section \<open>Reading through the keyed proxy\<close>

lemma MAXTAGLOOP_Suc: "MAXTAGLOOP = Suc (Suc 1998)"
  by (simp add: MAXTAGLOOP_def)

lemma rawget_push [simp]: "rawget (lua_push L v w) a k = rawget w a k"
  by (simp add: rawget_def lua_push_def)

lemma metamethod_push [simp]: "metamethod (lua_push L v w) t e = metamethod w t e"
  by (simp add: metamethod_def rawget_def lua_push_def split: option.splits)

lemma index_event_plain_table:
  "metamethod w (LTable a) ''__index'' = LNil \<Longrightarrow>
     index_event cf MAXTAGLOOP (LTable a) k w = Inr (rawget w a k, w)"
  unfolding MAXTAGLOOP_Suc by (subst index_event.simps(2)) simp


lemma newindex_event_raw:
  "rawget w a k \<noteq> LNil \<or> (metamethod w (LTable a) ''__newindex'' = LNil \<and> k \<noteq> LNil) \<Longrightarrow>
     newindex_event cf MAXTAGLOOP (LTable a) k v w = Inr (rawset w a k v)"
  unfolding MAXTAGLOOP_Suc by (subst newindex_event.simps(2)) auto




lemma lua_gettop_push [simp]: "lua_gettop L (lua_push L v w) = lua_gettop L w + 1"
  by (simp add: lua_gettop_def lua_push_def)

lemma lua_gettop_rawset [simp]: "lua_gettop L (rawset w a k x) = lua_gettop L w"
  by (simp add: lua_gettop_def rawset_def)

lemma lua_at_push2 [simp]: "lua_at L (-2) (lua_push L b (lua_push L a w)) = Some a"
  by (simp add: lua_at_def lua_push_def Let_def nth_append)

lemma lua_at_push3 [simp]: "lua_at L (-3) (lua_push L c (lua_push L b (lua_push L a w))) = Some a"
  by (simp add: lua_at_def lua_push_def Let_def nth_append)










section \<open>Raw store and field assignment\<close>






lemma rawset_stacks [simp]: "stacks (rawset w a k v) = stacks w"
  by (simp add: rawset_def)










section \<open>Stack balance of the operations\<close>

lemma and_then_Inr_iff: "and_then m f = Inr y \<longleftrightarrow> (\<exists>x. m = Inr x \<and> f x = Inr y)"
  by (cases m) (simp_all add: and_then_def)

lemma and_then_Inl_iff: "and_then m f = Inl e \<longleftrightarrow> m = Inl e \<or> (\<exists>x. m = Inr x \<and> f x = Inl e)"
  by (cases m) (simp_all add: and_then_def)

lemma lua_gettop_heights: "lua_gettop L w = int (stack_heights w L)"
  by (simp add: lua_gettop_def stack_heights_def)

lemma heights_push: "stack_heights (lua_push L v w) = (stack_heights w)(L := Suc (stack_heights w L))"
  by (simp add: stack_heights_def lua_push_def fun_eq_iff)

lemma heights_stacks: "stacks w' = stacks w \<Longrightarrow> stack_heights w' = stack_heights w"
  by (simp add: stack_heights_def fun_eq_iff)

lemma lua_pop_heights:
  "lua_pop L n w = Inr w' \<Longrightarrow>
     n \<le> stack_heights w L \<and> stack_heights w' = (stack_heights w)(L := stack_heights w L - n)"
  by (auto simp add: lua_pop_def stack_heights_def fun_eq_iff split: if_splits)

lemma lua_pop_fault [simp]: "lua_pop L n w \<noteq> Inl StackImbalance"
  by (simp add: lua_pop_def)

lemma luaL_ref_heights:
  "luaL_ref L w = Inr (p, w') \<Longrightarrow>
     0 < stack_heights w L \<and> stack_heights w' = (stack_heights w)(L := stack_heights w L - 1)"
  by (auto simp add: luaL_ref_def and_then_Inr_iff stack_heights_def fun_eq_iff lua_pop_def
      split: option.splits if_splits list.splits)

lemma luaL_ref_fault [simp]: "luaL_ref L w \<noteq> Inl StackImbalance"
  by (auto simp add: luaL_ref_def and_then_Inl_iff split: option.splits if_splits list.splits)

lemma incRef_heights:
  "incRef L w = Inr (p, w') \<Longrightarrow>
     0 < stack_heights w L \<and> stack_heights w' = (stack_heights w)(L := stack_heights w L - 1)"
  by (auto simp add: incRef_def and_then_Inr_iff lua_isnil_def
      dest: luaL_ref_heights lua_pop_heights split: if_splits)

lemma incRef_fault [simp]: "incRef L w \<noteq> Inl StackImbalance"
  by (auto simp add: incRef_def and_then_Inl_iff)

lemma from_stack_heights:
  "from_stack L w = Inr (r, w') \<Longrightarrow>
     0 < stack_heights w L \<and> stack_heights w' = (stack_heights w)(L := stack_heights w L - 1)"
  by (auto simp add: from_stack_def ref_of_state_def and_then_Inr_iff
      dest: incRef_heights split: if_splits)

lemma from_stack_fault [simp]: "from_stack L w \<noteq> Inl StackImbalance"
  by (auto simp add: from_stack_def ref_of_state_def and_then_Inl_iff)

lemma push_value_heights:
  "push_value_to_stack r w = Inr w' \<Longrightarrow> mLua r = Some L \<Longrightarrow>
     stack_heights w' = (stack_heights w)(L := Suc (stack_heights w L))"
  by (auto simp add: push_value_to_stack_def lua_rawgeti_registry_def heights_push)

lemma push_value_fault [simp]: "push_value_to_stack r w \<noteq> Inl StackImbalance"
  by (auto simp add: push_value_to_stack_def split: option.splits)

lemma push_to_lua_heights:
  "push_contract to_lua \<Longrightarrow> push_to_lua to_lua L t w = Inr w' \<Longrightarrow>
     stack_heights w' = (stack_heights w)(L := Suc (stack_heights w L))"
  by (auto simp add: push_to_lua_def push_contract_def and_then_Inr_iff)

lemma push_to_lua_fault:
  "push_contract to_lua \<Longrightarrow> push_to_lua to_lua L t w \<noteq> Inl StackImbalance"
  by (auto simp add: push_to_lua_def push_contract_def and_then_Inl_iff)

lemma lua_pushstring_heights:
  "lua_pushstring L s w = Inr w' \<Longrightarrow>
     stack_heights w' = (stack_heights w)(L := Suc (stack_heights w L))"
  by (auto simp add: lua_pushstring_def heights_push split: option.splits)

lemma lua_pushstring_fault [simp]: "lua_pushstring L s w \<noteq> Inl StackImbalance"
  by (auto simp add: lua_pushstring_def split: option.splits)

lemma lua_getmetatable_heights:
  "lua_getmetatable L n w = Inr (True, w') \<Longrightarrow>
     stack_heights w' = (stack_heights w)(L := Suc (stack_heights w L))"
  by (auto simp add: lua_getmetatable_def heights_push split: option.splits)

lemma lua_getmetatable_none:
  "lua_getmetatable L n w = Inr (False, w') \<Longrightarrow> stack_heights w' = stack_heights w"
  by (auto simp add: lua_getmetatable_def heights_push split: option.splits)

lemma lua_getmetatable_fault [simp]: "lua_getmetatable L n w \<noteq> Inl StackImbalance"
  by (auto simp add: lua_getmetatable_def split: option.splits)

lemma lua_setmetatable_heights:
  "lua_setmetatable L n w = Inr w' \<Longrightarrow>
     0 < stack_heights w L \<and> stack_heights w' = (stack_heights w)(L := stack_heights w L - 1)"
  by (auto simp add: lua_setmetatable_def lua_pop_def stack_heights_def fun_eq_iff
      split: option.splits lua_val.splits if_splits)

lemma lua_setmetatable_fault [simp]: "lua_setmetatable L n w \<noteq> Inl StackImbalance"
  by (auto simp add: lua_setmetatable_def split: option.splits lua_val.splits)

lemma lua_call_stacks: "lua_call cf f args w = Inr (rs, w') \<Longrightarrow> stacks w' = stacks w"
  by (auto simp add: lua_call_def split: option.splits)

lemma lua_call_fault [simp]: "lua_call cf f args w \<noteq> Inl StackImbalance"
  by (auto simp add: lua_call_def split: option.splits)

lemma index_event_stacks:
  "index_event cf n t k w = Inr (v, w') \<Longrightarrow> stacks w' = stacks w"
proof (induction n arbitrary: t)
  case 0
  then show ?case by simp
next
  case (Suc n)
  then show ?case
    by (auto simp add: and_then_Inr_iff dest: lua_call_stacks
        split: lua_val.splits if_splits)
qed

lemma index_event_fault [simp]: "index_event cf n t k w \<noteq> Inl StackImbalance"
proof (induction n arbitrary: t)
  case 0
  then show ?case by simp
next
  case (Suc n)
  then show ?case
    by (auto simp add: and_then_Inl_iff split: lua_val.splits if_splits)
qed

lemma newindex_event_stacks:
  "newindex_event cf n t k v w = Inr w' \<Longrightarrow> stacks w' = stacks w"
proof (induction n arbitrary: t)
  case 0
  then show ?case by simp
next
  case (Suc n)
  then show ?case
    by (auto simp add: and_then_Inr_iff rawset_def dest: lua_call_stacks
        split: lua_val.splits if_splits)
qed

lemma newindex_event_fault [simp]: "newindex_event cf n t k v w \<noteq> Inl StackImbalance"
proof (induction n arbitrary: t)
  case 0
  then show ?case by simp
next
  case (Suc n)
  then show ?case
    by (auto simp add: and_then_Inl_iff split: lua_val.splits if_splits)
qed

lemma lua_getfield_heights:
  "lua_getfield cf L n s w = Inr w' \<Longrightarrow>
     stack_heights w' = (stack_heights w)(L := Suc (stack_heights w L))"
  by (auto simp add: lua_getfield_def and_then_Inr_iff heights_push
      dest!: index_event_stacks heights_stacks split: option.splits)

lemma lua_getfield_fault [simp]: "lua_getfield cf L n s w \<noteq> Inl StackImbalance"
  by (auto simp add: lua_getfield_def and_then_Inl_iff split: option.splits)

lemma lua_settable_heights:
  "lua_settable cf L n w = Inr w' \<Longrightarrow>
     2 \<le> stack_heights w L \<and> stack_heights w' = (stack_heights w)(L := stack_heights w L - 2)"
  by (auto simp add: lua_settable_def and_then_Inr_iff
      dest!: newindex_event_stacks heights_stacks lua_pop_heights split: option.splits)

lemma lua_settable_fault [simp]: "lua_settable cf L n w \<noteq> Inl StackImbalance"
  by (auto simp add: lua_settable_def and_then_Inl_iff split: option.splits)

lemma lua_rawset_heights:
  "lua_rawset L n w = Inr w' \<Longrightarrow>
     2 \<le> stack_heights w L \<and> stack_heights w' = (stack_heights w)(L := stack_heights w L - 2)"
  by (auto simp add: lua_rawset_def rawset_def stack_heights_def fun_eq_iff lua_pop_def
      split: option.splits lua_val.splits if_splits)

lemma lua_rawset_fault [simp]: "lua_rawset L n w \<noteq> Inl StackImbalance"
  by (auto simp add: lua_rawset_def split: option.splits lua_val.splits)

lemma guard_balanced:
  assumes "\<And>L. Lo = Some L \<Longrightarrow> body L w \<noteq> Inl StackImbalance"
    and "\<And>L x w'. Lo = Some L \<Longrightarrow> body L w = Inr (x, w') \<Longrightarrow> stack_heights w' = stack_heights w"
  shows "stack_integrity_check Lo body w \<noteq> Inl StackImbalance
         \<and> (\<forall>x w'. stack_integrity_check Lo body w = Inr (x, w') \<longrightarrow>
               stack_heights w' = stack_heights w)"
proof (cases Lo)
  case None
  then show ?thesis by (simp add: stack_integrity_check_def)
next
  case (Some L)
  show ?thesis
  proof (cases "body L w")
    case (Inl e)
    with Some assms(1) [of L] show ?thesis
      by (simp add: stack_integrity_check_def and_then_def)
  next
    case (Inr p)
    obtain x w' where p: "p = (x, w')" by (cases p)
    from assms(2) [OF Some] Inr p have "stack_heights w' = stack_heights w" by simp
    with Some Inr p show ?thesis
      by (simp add: stack_integrity_check_def and_then_def lua_gettop_heights)
  qed
qed

lemma push_valueE:
  assumes "push_value_to_stack r w = Inr w'"
  obtains L where "mLua r = Some L"
    and "stack_heights w' = (stack_heights w)(L := Suc (stack_heights w L))"
  using assms
  by (auto simp add: push_value_to_stack_def lua_rawgeti_registry_def heights_push
      split: option.splits)

lemmas api_heights =
  lua_pop_heights from_stack_heights lua_getmetatable_heights lua_getmetatable_none
  lua_setmetatable_heights
  lua_getfield_heights lua_settable_heights lua_rawset_heights lua_pushstring_heights

lemma metatable_balanced:
  "metatable this w \<noteq> Inl StackImbalance
   \<and> (\<forall>x w'. metatable this w = Inr (x, w') \<longrightarrow> stack_heights w' = stack_heights w)"
  unfolding metatable_def
proof (rule guard_balanced)
  fix L
  assume "mLua this = Some L"
  show "and_then (push_value_to_stack this w) (\<lambda>w1.
          and_then (lua_getmetatable L (-1) w1) (\<lambda>(has, w2).
            if has
            then and_then (from_stack L w2) (\<lambda>(value, w3).
                 and_then (lua_pop L 1 w3) (\<lambda>w4. Inr (value, w4)))
            else and_then (lua_pop L 1 w2) (\<lambda>w3. Inr (null_ref, w3)))) \<noteq> Inl StackImbalance"
    by (auto simp add: and_then_Inl_iff)
next
  fix L x w'
  assume ctx: "mLua this = Some L"
    and r: "and_then (push_value_to_stack this w) (\<lambda>w1.
          and_then (lua_getmetatable L (-1) w1) (\<lambda>(has, w2).
            if has
            then and_then (from_stack L w2) (\<lambda>(value, w3).
                 and_then (lua_pop L 1 w3) (\<lambda>w4. Inr (value, w4)))
            else and_then (lua_pop L 1 w2) (\<lambda>w3. Inr (null_ref, w3)))) = Inr (x, w')"
  from r obtain w1 hm w2 where
    p: "push_value_to_stack this w = Inr w1"
    and g: "lua_getmetatable L (-1) w1 = Inr (hm, w2)"
    and rest: "(if hm
            then and_then (from_stack L w2) (\<lambda>(value, w3).
                 and_then (lua_pop L 1 w3) (\<lambda>w4. Inr (value, w4)))
            else and_then (lua_pop L 1 w2) (\<lambda>w3. Inr (null_ref, w3))) = Inr (x, w')"
    by (auto simp add: and_then_Inr_iff)
  have h1: "stack_heights w1 = (stack_heights w)(L := Suc (stack_heights w L))"
    by (rule push_value_heights [OF p ctx])
  show "stack_heights w' = stack_heights w"
  proof (cases hm)
    case True
    with rest obtain mt w3 where
      f: "from_stack L w2 = Inr (mt, w3)" and q: "lua_pop L 1 w3 = Inr w'"
      by (auto simp add: and_then_Inr_iff)
    from g True have h2: "stack_heights w2 = (stack_heights w1)(L := Suc (stack_heights w1 L))"
      by (simp add: lua_getmetatable_heights)
    from from_stack_heights [OF f]
    have h3: "stack_heights w3 = (stack_heights w2)(L := stack_heights w2 L - 1)"
      by simp
    from lua_pop_heights [OF q]
    have h4: "stack_heights w' = (stack_heights w3)(L := stack_heights w3 L - 1)"
      by simp
    show ?thesis
      by (simp add: h4 h3 h2 h1)
  next
    case False
    with rest have q: "lua_pop L 1 w2 = Inr w'"
      by (auto simp add: and_then_Inr_iff)
    from g False have h2: "stack_heights w2 = stack_heights w1"
      by (simp add: lua_getmetatable_none)
    from lua_pop_heights [OF q]
    have h4: "stack_heights w' = (stack_heights w2)(L := stack_heights w2 L - 1)"
      by simp
    show ?thesis
      by (simp add: h4 h2 h1)
  qed
qed

lemma as_body:
  "(case p of
      (Inr v, w2) \<Rightarrow> and_then (lua_pop L 1 w2) (\<lambda>w3. Inr (Inr v, w3))
    | (Inl e, w2) \<Rightarrow> and_then (lua_pop L 1 w2) (\<lambda>w3. Inr (Inl e, w3)))
   = and_then (lua_pop L 1 (snd p)) (\<lambda>w3. Inr (fst p, w3))"
  by (cases p; cases "fst p") auto

lemma is_body:
  "(case p of
      (Inr v, w2) \<Rightarrow> and_then (lua_pop L 1 w2) (\<lambda>w3. Inr (Some v, w3))
    | (Inl e, w2) \<Rightarrow> and_then (lua_pop L 1 w2) (\<lambda>w3. Inr (None, w3)))
   = and_then (lua_pop L 1 (snd p))
       (\<lambda>w3. Inr (case fst p of Inl e \<Rightarrow> None | Inr v \<Rightarrow> Some v, w3))"
  by (cases p; cases "fst p") auto

lemma read_contract_snd:
  "read_contract rd \<Longrightarrow> stack_heights (snd (rd L n w)) = stack_heights w"
  by (simp add: read_contract_def)

lemma ref_as_balanced:
  assumes "read_contract rd"
  shows "ref_as rd this w \<noteq> Inl StackImbalance
   \<and> (\<forall>x w'. ref_as rd this w = Inr (x, w') \<longrightarrow> stack_heights w' = stack_heights w)"
proof (cases "isNull this")
  case True
  then show ?thesis by (simp add: ref_as_def)
next
  case False
  then show ?thesis
    unfolding ref_as_def as_body
    apply simp
    apply (rule guard_balanced)
     apply (auto simp add: and_then_Inr_iff and_then_Inl_iff read_contract_snd [OF assms]
        elim!: push_valueE dest!: lua_pop_heights)
    done
qed

lemma ref_is_balanced:
  assumes "read_contract rd"
  shows "ref_is rd this w \<noteq> Inl StackImbalance
   \<and> (\<forall>x w'. ref_is rd this w = Inr (x, w') \<longrightarrow> stack_heights w' = stack_heights w)"
proof (cases "isNull this")
  case True
  then show ?thesis by (simp add: ref_is_def)
next
  case False
  then show ?thesis
    unfolding ref_is_def is_body
    apply simp
    apply (rule guard_balanced)
     apply (auto simp add: and_then_Inr_iff and_then_Inl_iff read_contract_snd [OF assms]
        elim!: push_valueE dest!: lua_pop_heights)
    done
qed

lemma set_metatable_balanced:
  "push_contract to_lua \<Longrightarrow>
   set_metatable to_lua this meta w \<noteq> Inl StackImbalance
   \<and> (\<forall>x w'. set_metatable to_lua this meta w = Inr (x, w') \<longrightarrow> stack_heights w' = stack_heights w)"
  unfolding set_metatable_def
  by (rule guard_balanced)
    (auto simp add: and_then_Inr_iff and_then_Inl_iff push_to_lua_fault elim!: push_valueE
      dest!: api_heights push_to_lua_heights split: if_splits)

lemma debug_str_balanced:
  "debug_str rn this w \<noteq> Inl StackImbalance
   \<and> (\<forall>x w'. debug_str rn this w = Inr (x, w') \<longrightarrow> stack_heights w' = stack_heights w)"
proof (cases "isNull this")
  case True
  then show ?thesis by (simp add: debug_str_def)
next
  case False
  then show ?thesis
    unfolding debug_str_def
    apply simp
    apply (rule guard_balanced)
     apply (auto simp add: and_then_Inr_iff and_then_Inl_iff Let_def elim!: push_valueE
        dest!: api_heights split: if_splits)
    done
qed

lemma value_view_ref_balanced:
  "value_view_ref cf vv w \<noteq> Inl StackImbalance
   \<and> (\<forall>x w'. value_view_ref cf vv w = Inr (x, w') \<longrightarrow> stack_heights w' = stack_heights w)"
  unfolding value_view_ref_def lua_def
  by (rule guard_balanced)
    (auto simp add: and_then_Inr_iff and_then_Inl_iff elim!: push_valueE dest!: api_heights
      split: if_splits)

lemma value_view_assign_balanced:
  "push_contract to_lua \<Longrightarrow>
   value_view_assign to_lua cf vv t w \<noteq> Inl StackImbalance
   \<and> (\<forall>x w'. value_view_assign to_lua cf vv t w = Inr (x, w') \<longrightarrow>
         stack_heights w' = stack_heights w)"
  unfolding value_view_assign_def lua_def
  by (rule guard_balanced)
    (auto simp add: and_then_Inr_iff and_then_Inl_iff push_to_lua_fault
      elim!: push_valueE dest!: api_heights push_to_lua_heights split: if_splits)

lemma raw_set_balanced:
  "push_contract kl \<Longrightarrow> push_contract vl \<Longrightarrow>
   raw_set kl vl this key val w \<noteq> Inl StackImbalance
   \<and> (\<forall>x w'. raw_set kl vl this key val w = Inr (x, w') \<longrightarrow> stack_heights w' = stack_heights w)"
  unfolding raw_set_def lua_def
  by (rule guard_balanced)
    (auto simp add: and_then_Inr_iff and_then_Inl_iff push_to_lua_fault
      elim!: push_valueE dest!: api_heights push_to_lua_heights split: if_splits)

lemma dtor_heights: "dtor r w = Inr w' \<Longrightarrow> stack_heights w' = stack_heights w"
  by (auto simp add: dtor_def releaseIfNotNull_def checkThread_def and_then_Inr_iff
      luaL_unref_def stack_heights_def split: if_splits option.splits)

lemma dtor_fault [simp]: "dtor r w \<noteq> Inl StackImbalance"
  by (auto simp add: dtor_def releaseIfNotNull_def checkThread_def and_then_Inl_iff
      split: if_splits option.splits)

lemma discard_balanced:
  assumes "m \<noteq> Inl StackImbalance \<and> (\<forall>x w'. m = Inr (x, w') \<longrightarrow> stack_heights w' = stack_heights w)"
  shows "discard m \<noteq> Inl StackImbalance \<and> (\<forall>w'. discard m = Inr w' \<longrightarrow> stack_heights w' = stack_heights w)"
  using assms by (cases m) (auto simp add: discard_def and_then_def)

lemma then_dtor_balanced:
  assumes "m \<noteq> Inl StackImbalance \<and> (\<forall>x w'. m = Inr (x, w') \<longrightarrow> stack_heights w' = stack_heights w)"
  shows "and_then m (\<lambda>(r, w1). dtor r w1) \<noteq> Inl StackImbalance
         \<and> (\<forall>w'. and_then m (\<lambda>(r, w1). dtor r w1) = Inr w' \<longrightarrow> stack_heights w' = stack_heights w)"
  using assms by (cases m) (auto simp add: and_then_def dest: dtor_heights)

lemma keyed_get_balanced:
  "keyed_get cf view k w \<noteq> Inl StackImbalance
   \<and> (\<forall>x w'. keyed_get cf view k w = Inr (x, w') \<longrightarrow> stack_heights w' = stack_heights w)"
  using value_view_ref_balanced [of cf "\<lparr>table = view, name = k\<rparr>" w]
  by (simp add: keyed_get_def table_view_index_def and_then_def)

lemma keyed_set_balanced:
  "push_contract to_lua \<Longrightarrow>
   keyed_set to_lua cf view k t w \<noteq> Inl StackImbalance
   \<and> (\<forall>x w'. keyed_set to_lua cf view k t w = Inr (x, w') \<longrightarrow> stack_heights w' = stack_heights w)"
  using value_view_assign_balanced [of to_lua cf "\<lparr>table = view, name = k\<rparr>" t w]
  by (simp add: keyed_set_def table_view_index_def and_then_def)

lemma run_op_balanced:
  assumes "read_contract rd" and "push_contract kl" and "push_contract vl"
  shows "run_op rd kl vl cf rn x w \<noteq> Inl StackImbalance
         \<and> (\<forall>w'. run_op rd kl vl cf rn x w = Inr w' \<longrightarrow> stack_heights w' = stack_heights w)"
proof (cases x)
  case (ReadAs h)
  then show ?thesis
    using discard_balanced [OF ref_as_balanced [OF assms(1)]] by simp
next
  case (TryReadAs h)
  then show ?thesis
    using discard_balanced [OF ref_is_balanced [OF assms(1)]] by simp
next
  case (Metatable h)
  then show ?thesis
    using then_dtor_balanced [OF metatable_balanced] by simp
next
  case (SetMetatable h v)
  then show ?thesis
    using discard_balanced [OF set_metatable_balanced [OF assms(3)]] by simp
next
  case (DebugStr h)
  then show ?thesis
    using discard_balanced [OF debug_str_balanced] by simp
next
  case (KeyedGet view k)
  then show ?thesis
    using then_dtor_balanced [OF keyed_get_balanced] by simp
next
  case (KeyedSet view k v)
  then show ?thesis
    using discard_balanced [OF keyed_set_balanced [OF assms(3)]] by simp
next
  case (RawSet view k v)
  then show ?thesis
    using discard_balanced [OF raw_set_balanced [OF assms(2,3)]] by simp
qed

lemma read_contract_number: "read_contract number_from_lua"
  by (auto simp add: read_contract_def number_from_lua_def split: option.splits lua_val.splits)

lemma push_contract_pure: "push_contract (pure_to_lua repr)"
  by (auto simp add: push_contract_def pure_to_lua_def heights_push)

lemmas view_eval =
  run_op.simps run_ops.simps discard_def ref_as_def ref_is_def metatable_def set_metatable_def
  debug_str_def keyed_get_def keyed_set_def raw_set_def table_view_index_def value_view_ref_def
  value_view_assign_def stack_integrity_check_def lua_def isNull_def null_ref_def
  number_from_lua_def pure_to_lua_def push_to_lua_def any_to_string_def
  lua_getmetatable_def lua_setmetatable_def lua_getfield_def lua_settable_def lua_rawset_def
  lua_istable_def lua_pushstring_def c_str_def literal_view_def rawget_def rawset_def
  metamethod_def
  index_event_plain_table newindex_event_raw

text \<open>
  Under the contracts of section 6 every sequence of public operations is balanced:
  with a typed-read capability that leaves the stacks at their height (whether it
  succeeds or fails with a conversion error) and push capabilities that push one
  value on the stack they are given, the stack integrity guard never fires, and
  whenever the sequence returns, the height of every stack is what it was before.
\<close>

lemma operations_keep_stack_height:
  assumes "read_contract rd" and "push_contract kl" and "push_contract vl"
  shows "run_ops rd kl vl cf rn xs w \<noteq> Inl StackImbalance
         \<and> (\<forall>w'. run_ops rd kl vl cf rn xs w = Inr w' \<longrightarrow>
               (\<forall>L. lua_gettop L w' = lua_gettop L w))"
proof (induction xs arbitrary: w)
  case Nil
  show ?case by simp
next
  case (Cons x xs)
  note op = run_op_balanced [OF assms, of cf rn x w]
  show ?case
  proof (cases "run_op rd kl vl cf rn x w")
    case (Inl e)
    with op show ?thesis by (simp add: and_then_def)
  next
    case (Inr w1)
    with op have h: "stack_heights w1 = stack_heights w" by simp
    from Cons.IH [of w1] Inr h show ?thesis
      by (simp add: and_then_def lua_gettop_heights)
  qed
qed

lemma operations_keep_stack_height_example:
  "read_contract number_from_lua \<and> push_contract (pure_to_lua LString)
   \<and> push_contract (pure_to_lua LTable)
   \<and> (\<exists>w'. run_ops number_from_lua (pure_to_lua LString) (pure_to_lua LTable) no_functions
              (\<lambda>v t m. [])
              [ReadAs \<lparr>mLua = Some 0, mPtr = 1\<rparr>, TryReadAs \<lparr>mLua = Some 0, mPtr = 1\<rparr>,
               Metatable \<lparr>mLua = Some 0, mPtr = 1\<rparr>, DebugStr \<lparr>mLua = Some 0, mPtr = 1\<rparr>,
               KeyedGet \<lparr>mLua = Some 0, mPtr = 1\<rparr> (literal_view ''x''),
               KeyedSet \<lparr>mLua = Some 0, mPtr = 1\<rparr> (literal_view ''x'') 4,
               RawSet \<lparr>mLua = Some 0, mPtr = 1\<rparr> ''y'' 4,
               SetMetatable \<lparr>mLua = Some 0, mPtr = 1\<rparr> 3]
              shadow_world = Inr w'
          \<and> (\<forall>L. lua_gettop L w' = lua_gettop L shadow_world))"
proof -
  have r: "read_contract number_from_lua"
    by (rule read_contract_number)
  have k: "push_contract (pure_to_lua LString)"
    by (rule push_contract_pure)
  have v: "push_contract (pure_to_lua LTable)"
    by (rule push_contract_pure)
  let ?run = "run_ops number_from_lua (pure_to_lua LString) (pure_to_lua LTable) no_functions
              (\<lambda>v t m. [])
              [ReadAs \<lparr>mLua = Some 0, mPtr = 1\<rparr>, TryReadAs \<lparr>mLua = Some 0, mPtr = 1\<rparr>,
               Metatable \<lparr>mLua = Some 0, mPtr = 1\<rparr>, DebugStr \<lparr>mLua = Some 0, mPtr = 1\<rparr>,
               KeyedGet \<lparr>mLua = Some 0, mPtr = 1\<rparr> (literal_view ''x''),
               KeyedSet \<lparr>mLua = Some 0, mPtr = 1\<rparr> (literal_view ''x'') 4,
               RawSet \<lparr>mLua = Some 0, mPtr = 1\<rparr> ''y'' 4,
               SetMetatable \<lparr>mLua = Some 0, mPtr = 1\<rparr> 3]
              shadow_world"
  have "\<not> isl ?run"
    by (simp add: shadow_world_def fresh_world_def view_eval handle_eval)
  then obtain w' where e: "?run = Inr w'"
    by (cases ?run) simp_all
  from operations_keep_stack_height [OF r k v] e
  have "\<forall>L. lua_gettop L w' = lua_gettop L shadow_world"
    by blast
  with r k v e show ?thesis
    by blast
qed

text \<open>
  C4. The balance fails where the value given to an operation is a handle of another
  context: \<^verbatim>\<open>converter<clg::ref>::to_lua\<close> pushes a non-null handle on the stack
  of the handle, not on the stack it is given. In \<^verbatim>\<open>h.set_metatable(m)\<close>, with
  \<open>h\<close> on thread 0 and \<open>m\<close> on thread 1, the metatable goes to the stack of thread 1,
  \<^verbatim>\<open>lua_setmetatable\<close> pops the value of \<open>h\<close> and \<^verbatim>\<open>lua_pop\<close> pops the value
  the caller had on the stack of thread 0: the stack integrity guard of
  \<^verbatim>\<open>set_metatable\<close> fires. With \<open>m\<close> on thread 0 the same call is balanced.
\<close>

theorem set_metatable_across_contexts:
  "set_metatable converter_ref_to_lua \<lparr>mLua = Some 0, mPtr = 1\<rparr> \<lparr>mLua = Some 1, mPtr = 2\<rparr>
     two_contexts_world = Inl StackImbalance
   \<and> set_metatable converter_ref_to_lua \<lparr>mLua = Some 0, mPtr = 1\<rparr> \<lparr>mLua = Some 0, mPtr = 2\<rparr>
       two_contexts_world = Inr ((), two_contexts_world\<lparr>metatables := [LTable 2 \<mapsto> 3]\<rparr>)"
proof -
  have a: "set_metatable converter_ref_to_lua \<lparr>mLua = Some 0, mPtr = 1\<rparr> \<lparr>mLua = Some 1, mPtr = 2\<rparr>
     two_contexts_world = Inl StackImbalance"
    by (simp add: set_metatable_def stack_integrity_check_def push_value_to_stack_def
        lua_rawgeti_registry_def push_to_lua_def converter_ref_to_lua_def isNull_def
        lua_setmetatable_def lua_at_def lua_pop_def lua_push_def lua_gettop_def Let_def
        and_then_def two_contexts_world_def fresh_world_def)
  have b: "set_metatable converter_ref_to_lua \<lparr>mLua = Some 0, mPtr = 1\<rparr> \<lparr>mLua = Some 0, mPtr = 2\<rparr>
       two_contexts_world = Inr ((), two_contexts_world\<lparr>metatables := [LTable 2 \<mapsto> 3]\<rparr>)"
    by (simp add: set_metatable_def stack_integrity_check_def push_value_to_stack_def
        lua_rawgeti_registry_def push_to_lua_def converter_ref_to_lua_def isNull_def
        lua_setmetatable_def lua_at_def lua_pop_def lua_push_def lua_gettop_def Let_def
        and_then_def two_contexts_world_def fresh_world_def)
  from a b show ?thesis
    by simp
qed

end
